theory Spec2Isabelle
  imports Complex_Main "HOL-Library.AList" "HOL-Library.Sublist"
begin

section \<open>Data model\<close>

text \<open>
  Python values that cross a library boundary (an exception that escapes a call, the
  object handed to the JSON encoder) are made explicit.  A call either returns a value
  or raises; in both cases the mutated object is returned next to the outcome, because
  a Python exception does not undo the assignments made before it.
\<close>

datatype py_error =
    TypeError | KeyError | JSONDecodeError | UnicodeDecodeError | RecursionError | ValueError
  | OSError | UnexpectedError

datatype 'a outcome = Returns 'a | Raises py_error

text \<open>The dict built per audio file in \<^verbatim>\<open>_process_audio_file\<close> (key \<^verbatim>\<open>size\<close> is \<open>size_bytes\<close>).\<close>

record track_info =
  path :: string
  filename :: string
  size_bytes :: int
  album :: string
  artist :: string
  title :: string
  track_number :: int
  duration :: int

text \<open>The album summary dict built by \<^verbatim>\<open>search_album\<close> and \<^verbatim>\<open>get_random_album\<close>.\<close>

record album_summary =
  key :: string
  name :: string
  summary_artist :: string
  track_count :: int

section \<open>Player (player.py)\<close>

datatype PlayerState = STOPPED | PLAYING | PAUSED

text \<open>Calls made on the VLC list player and media player, in the order they are issued.\<close>

datatype vlc_call =
    ListPlay | ListPlayItemAtIndex int | ListPause | ListStop | ListNext | ListPrevious
  | AudioSetVolume int

text \<open>
  The fields of \<^verbatim>\<open>Player\<close>.  \<open>media_list\<close> is the VLC media list (the paths added to it),
  \<open>vlc_calls\<close> the trace of backend calls, \<open>monitor_alive\<close> says whether
  \<^verbatim>\<open>monitor_thread\<close> exists and is alive.
\<close>

record player =
  state :: PlayerState
  current_album :: "album_summary option"
  current_track_index :: int
  current_playlist :: "track_info list"
  monitor_running :: bool
  monitor_alive :: bool
  media_list :: "string list"
  vlc_calls :: "vlc_call list"

definition vlc :: "vlc_call \<Rightarrow> player \<Rightarrow> player" where
  "vlc c p = p\<lparr>vlc_calls := vlc_calls p @ [c]\<rparr>"

definition set_volume :: "int \<Rightarrow> player \<Rightarrow> bool \<times> player" where
  "set_volume volume p = (True, vlc (AudioSetVolume (max 0 (min 100 volume))) p)"

text \<open>\<^verbatim>\<open>Player.__init__\<close>; the argument is \<^verbatim>\<open>PLAYER_VOLUME\<close> of config.py.\<close>

definition init_player :: "int \<Rightarrow> player" where
  "init_player player_volume =
     \<lparr>state = STOPPED, current_album = None, current_track_index = - 1,
      current_playlist = [], monitor_running = False, monitor_alive = False,
      media_list = [], vlc_calls = [AudioSetVolume (max 0 (min 100 player_volume))]\<rparr>"

definition start_monitor :: "player \<Rightarrow> player" where
  "start_monitor p =
     (if monitor_alive p then p
      else p\<lparr>monitor_running := True, monitor_alive := True\<rparr>)"

definition on_media_end :: "player \<Rightarrow> player" where
  "on_media_end p =
     (if state p = PLAYING then
        (let p1 = p\<lparr>current_track_index := current_track_index p + 1\<rparr>
         in if current_track_index p1 \<ge> int (length (current_playlist p1))
            then p1\<lparr>current_track_index := 0\<rparr> else p1)
      else p)"

definition stop :: "player \<Rightarrow> bool \<times> player" where
  "stop p = (True, (vlc ListStop p)\<lparr>state := STOPPED\<rparr>)"

definition load_playlist :: "album_summary \<Rightarrow> track_info list \<Rightarrow> player \<Rightarrow> bool \<times> player" where
  "load_playlist album_info tracks p =
     (let p1 = snd (stop p);
          p2 = p1\<lparr>media_list := []\<rparr>;
          p3 = p2\<lparr>media_list := map path tracks\<rparr>
      in (True, p3\<lparr>current_album := Some album_info, current_playlist := tracks,
                    current_track_index := 0\<rparr>))"

text \<open>
  \<^verbatim>\<open>play\<close> formats \<^verbatim>\<open>self.current_album['name']\<close> into its log line when it starts from
  the beginning; with no album loaded that subscript raises after the state was set.
\<close>

definition play :: "player \<Rightarrow> bool outcome \<times> player" where
  "play p =
     (if current_playlist p = [] then (Returns False, p)
      else if state p = PAUSED then
        (Returns True, start_monitor ((vlc ListPlay p)\<lparr>state := PLAYING\<rparr>))
      else
        (let p1 = (vlc (ListPlayItemAtIndex (current_track_index p)) p)\<lparr>state := PLAYING\<rparr>
         in case current_album p1 of
              None \<Rightarrow> (Raises TypeError, p1)
            | Some a \<Rightarrow> (Returns True, start_monitor p1)))"

definition pause :: "player \<Rightarrow> bool \<times> player" where
  "pause p =
     (if state p = PLAYING then (True, (vlc ListPause p)\<lparr>state := PAUSED\<rparr>)
      else (False, p))"

definition next_track :: "player \<Rightarrow> bool \<times> player" where
  "next_track p =
     (if current_playlist p = [] \<or> length (current_playlist p) \<le> 1 then (False, p)
      else (True, (vlc ListNext p)
              \<lparr>current_track_index :=
                 (current_track_index p + 1) mod int (length (current_playlist p))\<rparr>))"

definition previous_track :: "player \<Rightarrow> bool \<times> player" where
  "previous_track p =
     (if current_playlist p = [] \<or> length (current_playlist p) \<le> 1 then (False, p)
      else (True, (vlc ListPrevious p)
              \<lparr>current_track_index :=
                 (current_track_index p - 1) mod int (length (current_playlist p))\<rparr>))"

text \<open>
  The operations that can follow \<^verbatim>\<open>load_playlist\<close>, \<open>MediaEnd\<close> being the backend's
  end-of-track callback.  \<open>exec\<close> runs one of them and keeps the player it leaves behind,
  \<open>run\<close> a sequence of them, one after the other.
\<close>

datatype command = Play | Pause | Stop | NextTrack | PreviousTrack | SetVolume int | MediaEnd

fun exec :: "command \<Rightarrow> player \<Rightarrow> player" where
  "exec Play p = snd (play p)"
| "exec Pause p = snd (pause p)"
| "exec Stop p = snd (stop p)"
| "exec NextTrack p = snd (next_track p)"
| "exec PreviousTrack p = snd (previous_track p)"
| "exec (SetVolume v) p = snd (set_volume v p)"
| "exec MediaEnd p = on_media_end p"

fun run :: "command list \<Rightarrow> player \<Rightarrow> player" where
  "run [] p = p"
| "run (c # cs) p = run cs (exec c p)"

text \<open>The players a program can hold: built by the constructor, then driven through
  the public operations and the callback.\<close>

inductive reachable :: "player \<Rightarrow> bool" where
  init: "reachable (init_player v)"
| load: "reachable p \<Longrightarrow> reachable (snd (load_playlist a ts p))"
| step: "reachable p \<Longrightarrow> reachable (exec c p)"


section \<open>Strings and paths\<close>

text \<open>
  A Python string is modelled as the \<open>string\<close> of its characters.  \<open>str_in q s\<close> is
  \<^verbatim>\<open>q in s\<close>; \<open>startswith\<close> and \<open>endswith\<close> are the methods of that name.
  \<^verbatim>\<open>str.lower\<close> belongs to the interpreter and is a parameter of the model (\<open>str_lower\<close>
  in \<open>env\<close> below); \<open>latin1_lower\<close> is what it computes on strings whose characters
  are code points below 256: the letters A to Z and the capital letters U+00C0 to U+00DE
  (the multiplication sign U+00D7 is no letter) move up by 32.
\<close>

definition latin1_lower_char :: "char \<Rightarrow> char" where
  "latin1_lower_char c =
     (let n = (of_char c :: nat)
      in if (65 \<le> n \<and> n \<le> 90) \<or> (192 \<le> n \<and> n \<le> 222 \<and> n \<noteq> 215)
         then char_of (n + 32) else c)"

definition latin1_lower :: "string \<Rightarrow> string" where
  "latin1_lower s = map latin1_lower_char s"

definition startswith :: "string \<Rightarrow> string \<Rightarrow> bool" where
  "startswith s p = prefix p s"

definition endswith :: "string \<Rightarrow> string \<Rightarrow> bool" where
  "endswith s p = suffix p s"

fun str_in :: "string \<Rightarrow> string \<Rightarrow> bool" where
  "str_in q [] = (q = [])"
| "str_in q (c # cs) = (prefix q (c # cs) \<or> str_in q cs)"

text \<open>
  \<^verbatim>\<open>s.replace(old, new)\<close>: the occurrences of \<open>old\<close> are replaced from left to right
  without overlap; an empty \<open>old\<close> matches before every character and at the end.
\<close>

function str_replace :: "string \<Rightarrow> string \<Rightarrow> string \<Rightarrow> string" where
  "str_replace old new s =
     (if old = [] then new @ concat (map (\<lambda>c. c # new) s)
      else if prefix old s then new @ str_replace old new (drop (length old) s)
      else (case s of [] \<Rightarrow> [] | c # cs \<Rightarrow> c # str_replace old new cs))"
  by pat_completeness auto
termination
  by (relation "measure (\<lambda>(old, new, s). length s)") (auto simp: prefix_def)

text \<open>\<^verbatim>\<open>s.split(sep)\<close> for a one-character separator: never an empty list.\<close>

fun split_on :: "char \<Rightarrow> string \<Rightarrow> string list" where
  "split_on sep [] = [[]]"
| "split_on sep (c # cs) =
     (if c = sep then [] # split_on sep cs
      else (case split_on sep cs of [] \<Rightarrow> [[c]] | p # ps \<Rightarrow> (c # p) # ps))"

text \<open>\<^verbatim>\<open>str(n)\<close> of an integer: decimal digits, a minus sign for negative numbers.\<close>

definition digit_char :: "nat \<Rightarrow> char" where
  "digit_char d = ''0123456789'' ! d"

function digits :: "nat \<Rightarrow> string" where
  "digits n = (if n < 10 then [digit_char n] else digits (n div 10) @ [digit_char (n mod 10)])"
  by pat_completeness auto
termination
  by (relation "measure id") auto

definition str_int :: "int \<Rightarrow> string" where
  "str_int i = (if i < 0 then CHR ''-'' # digits (nat (- i)) else digits (nat i))"

text \<open>\<^verbatim>\<open>os.sep\<close>, \<^verbatim>\<open>os.path.basename\<close>, \<^verbatim>\<open>os.path.join\<close> of two parts and the first
  component of \<^verbatim>\<open>os.path.splitext\<close> (a dot that only follows dots opens no extension).\<close>

definition os_sep :: char where
  "os_sep = CHR ''/''"

definition basename :: "string \<Rightarrow> string" where
  "basename p = rev (takeWhile (\<lambda>c. c \<noteq> os_sep) (rev p))"

definition path_join :: "string \<Rightarrow> string \<Rightarrow> string" where
  "path_join a b =
     (if startswith b [os_sep] then b
      else if a = [] \<or> endswith a [os_sep] then a @ b
      else a @ [os_sep] @ b)"

definition splitext_root :: "string \<Rightarrow> string" where
  "splitext_root p =
     (let d = rev (takeWhile (\<lambda>c. c \<noteq> os_sep) (rev p));
          h = take (length p - length d) p;
          r = dropWhile (\<lambda>c. c \<noteq> CHR ''.'') (rev d)
      in if r = [] \<or> list_all (\<lambda>c. c = CHR ''.'') (tl r) then p else h @ rev (tl r))"

section \<open>The cache file (config.py)\<close>

text \<open>
  The objects handed to \<^verbatim>\<open>json.dump\<close> and returned by \<^verbatim>\<open>json.load\<close>.  A dict keeps its
  insertion order, so it is an association list; \<open>PSet\<close> is a Python \<^verbatim>\<open>set\<close>.  A float
  is a real number or one of the three values the decoder also reads (\<^verbatim>\<open>NaN\<close>,
  \<^verbatim>\<open>Infinity\<close>, \<^verbatim>\<open>-Infinity\<close>).
\<close>

datatype pyfloat = Finite real | NaN | PosInfinity | NegInfinity

datatype pyval =
    PNone
  | PBool bool
  | PInt int
  | PFloat pyfloat
  | PStr string
  | PList "pyval list"
  | PSet "pyval list"
  | PDict "(string \<times> pyval) list"

text \<open>What the JSON encoder accepts: it raises \<^verbatim>\<open>TypeError\<close> on a set, at any depth.\<close>

primrec json_serializable :: "pyval \<Rightarrow> bool" where
  "json_serializable PNone = True"
| "json_serializable (PBool b) = True"
| "json_serializable (PInt i) = True"
| "json_serializable (PFloat x) = True"
| "json_serializable (PStr s) = True"
| "json_serializable (PList vs) = list_all id (map json_serializable vs)"
| "json_serializable (PSet vs) = False"
| "json_serializable (PDict kvs) = list_all snd (map (map_prod id json_serializable) kvs)"

text \<open>
  The cache file \<^verbatim>\<open>LIBRARY_CACHE\<close>, by what opening it and \<^verbatim>\<open>json.load\<close> do with it:
  \<^item> \<open>Json_text v\<close>: text that \<^verbatim>\<open>json.load\<close> decodes to the value \<open>v\<close> (of any shape;
    the decoder also reads \<^verbatim>\<open>NaN\<close> and \<^verbatim>\<open>Infinity\<close>);
  \<^item> \<open>Malformed_text\<close>: text on which the decoder raises \<^verbatim>\<open>json.JSONDecodeError\<close>, such
    as a document cut off in the middle;
  \<^item> \<open>Undecodable_bytes\<close>: bytes that are not text in the file's encoding
    (\<^verbatim>\<open>UnicodeDecodeError\<close>, raised while reading);
  \<^item> \<open>Too_deep_text\<close>: text nested deeper than the interpreter's recursion limit, such
    as 5000 opening brackets (\<^verbatim>\<open>RecursionError\<close>);
  \<^item> \<open>Huge_integer_text\<close>: text with an integer of more digits than \<^verbatim>\<open>int\<close> converts,
    such as 4301 digits (plain \<^verbatim>\<open>ValueError\<close>);
  \<^item> \<open>Unreadable_file\<close>: a file that \<^verbatim>\<open>open\<close> refuses (\<^verbatim>\<open>OSError\<close>);
  \<^item> \<open>Raising_content err\<close>: any other file on which opening or decoding raises
    the exception \<open>err\<close>.

  \<open>cache_file = None\<close>: no file.
\<close>

datatype file_content =
    Json_text pyval
  | Malformed_text
  | Undecodable_bytes
  | Too_deep_text
  | Huge_integer_text
  | Unreadable_file
  | Raising_content py_error

record disk =
  cache_file :: "file_content option"
  cache_writable :: bool

datatype log_event = Error_loading_library_cache | Error_saving_library_cache

text \<open>The two lines \<^verbatim>\<open>with open(LIBRARY_CACHE, 'r') as f: return json.load(f)\<close>.\<close>

fun json_load :: "file_content \<Rightarrow> pyval outcome" where
  "json_load (Json_text v) = Returns v"
| "json_load Malformed_text = Raises JSONDecodeError"
| "json_load Undecodable_bytes = Raises UnicodeDecodeError"
| "json_load Too_deep_text = Raises RecursionError"
| "json_load Huge_integer_text = Raises ValueError"
| "json_load Unreadable_file = Raises OSError"
| "json_load (Raising_content err) = Raises err"

text \<open>
  \<^verbatim>\<open>MusicLibraryCache.load\<close>: the handler catches \<^verbatim>\<open>json.JSONDecodeError\<close> only, logs
  and returns the empty dict; every other exception leaves \<^verbatim>\<open>load\<close>.
\<close>

definition cache_load :: "disk \<Rightarrow> pyval outcome \<times> log_event list" where
  "cache_load d =
     (case cache_file d of
        None \<Rightarrow> (Returns (PDict []), [])
      | Some c \<Rightarrow>
          (case json_load c of
             Returns v \<Rightarrow> (Returns v, [])
           | Raises err \<Rightarrow>
               (if err = JSONDecodeError
                then (Returns (PDict []), [Error_loading_library_cache])
                else (Raises err, []))))"

text \<open>
  \<^verbatim>\<open>MusicLibraryCache.save\<close>: \<^verbatim>\<open>open(LIBRARY_CACHE, 'w')\<close> empties the file, then
  \<^verbatim>\<open>json.dump(library, f, indent=2)\<close> writes the document piece by piece; when the encoder
  raises, the pieces written so far stay in the file, which is no JSON document.  Every
  exception is caught and logged.
\<close>

definition cache_save :: "pyval \<Rightarrow> disk \<Rightarrow> disk \<times> log_event list" where
  "cache_save v d =
     (if \<not> cache_writable d then (d, [Error_saving_library_cache])
      else if json_serializable v then (d\<lparr>cache_file := Some (Json_text v)\<rparr>, [])
      else (d\<lparr>cache_file := Some Malformed_text\<rparr>, [Error_saving_library_cache]))"

section \<open>The music library (music\_library.py)\<close>

record album_entry =
  album_name :: string
  album_artist :: string
  album_tracks :: "string list"
  album_track_count :: int

text \<open>\<open>artist_albums\<close> is a Python \<^verbatim>\<open>set\<close> of album keys, kept without duplicates.\<close>

record artist_entry =
  artist_name :: string
  artist_albums :: "string list"
  artist_tracks :: "string list"

text \<open>The fields of \<^verbatim>\<open>MusicLibrary\<close>; each dict in insertion order.\<close>

record music_library =
  library :: "(string \<times> track_info) list"
  albums :: "(string \<times> album_entry) list"
  artists :: "(string \<times> artist_entry) list"
  indexed_time :: int

definition mount_point :: string where
  "mount_point = ''/home/jay/music_server''"

definition supported_extensions :: "string list" where
  "supported_extensions = [''.flac'', ''.mp3'', ''.wav'', ''.aac'', ''.m4a'', ''.ogg'', ''.alac'']"

type_synonym tag_dict = "(string \<times> string list) list"

text \<open>
  What \<^verbatim>\<open>MutagenFile(file_path)\<close> gives: nothing, an exception, a FLAC file with its tags
  and \<^verbatim>\<open>int(audio.info.length)\<close>, an MP3 file with the tags \<^verbatim>\<open>EasyID3(file_path)\<close> reads
  (\<open>None\<close> when that raises) and its length, or another audio type with its length
  if it has one.
\<close>

datatype mutagen_file =
    NoAudio
  | OpenFails
  | IsFLAC tag_dict int
  | IsMP3 "tag_dict option" int
  | OtherAudio "int option"

text \<open>
  Everything \<^verbatim>\<open>index_library\<close> reads from outside the object: the result of
  \<^verbatim>\<open>NetworkManager.mount_server()\<close>, the two clock readings that matter (line 58 and
  line 90), the \<open>(root, files)\<close> pairs of \<^verbatim>\<open>os.walk(MOUNT_POINT)\<close>, the tag library,
  \<^verbatim>\<open>os.path.getsize\<close> (\<open>None\<close>: \<^verbatim>\<open>OSError\<close>), \<^verbatim>\<open>int\<close> on a string (\<open>None\<close>:
  \<^verbatim>\<open>ValueError\<close>), \<^verbatim>\<open>str.lower\<close> and the interpreter's string hash, which is keyed by a
  secret drawn at process start.  \<open>aggregation_error = Some n\<close> stands for an unexpected
  exception raised inside \<^verbatim>\<open>_organize_library\<close> after \<open>n\<close> tracks were aggregated.
\<close>

record env =
  mount_ok :: bool
  clock_check :: real
  clock_done :: real
  os_walk :: "(string \<times> string list) list"
  mutagen :: "string \<Rightarrow> mutagen_file"
  getsize :: "string \<Rightarrow> int option"
  int_of_str :: "string \<Rightarrow> int option"
  str_lower :: "string \<Rightarrow> string"
  py_hash :: "string \<Rightarrow> int"
  aggregation_error :: "nat option"

text \<open>\<^verbatim>\<open>int(x)\<close> of a float truncates towards zero.\<close>

definition int_of_float :: "real \<Rightarrow> int" where
  "int_of_float x = (if 0 \<le> x then \<lfloor>x\<rfloor> else \<lceil>x\<rceil>)"

subsection \<open>Tag extraction\<close>

text \<open>\<^verbatim>\<open>if k in tags: track_info[...] = tags[k][0]\<close>; \<open>None\<close> is the \<^verbatim>\<open>IndexError\<close> of
  an empty value list.\<close>

definition take_tag ::
  "tag_dict \<Rightarrow> string \<Rightarrow> (string \<Rightarrow> track_info \<Rightarrow> track_info) \<Rightarrow> track_info \<Rightarrow> track_info option" where
  "take_tag tags k upd t =
     (case map_of tags k of
        None \<Rightarrow> Some t
      | Some [] \<Rightarrow> None
      | Some (v # _) \<Rightarrow> Some (upd v t))"

text \<open>The track number: \<^verbatim>\<open>ValueError\<close> and \<^verbatim>\<open>IndexError\<close> are passed over.\<close>

definition take_tracknumber :: "env \<Rightarrow> tag_dict \<Rightarrow> track_info \<Rightarrow> track_info" where
  "take_tracknumber e tags t =
     (case map_of tags ''tracknumber'' of
        None \<Rightarrow> t
      | Some [] \<Rightarrow> t
      | Some (v # _) \<Rightarrow>
          (case int_of_str e (hd (split_on CHR ''/'' v)) of
             None \<Rightarrow> t
           | Some n \<Rightarrow> t\<lparr>track_number := n\<rparr>))"

definition flac_tags :: "env \<Rightarrow> tag_dict \<Rightarrow> int \<Rightarrow> track_info \<Rightarrow> track_info option" where
  "flac_tags e tags len t =
     (case take_tag tags ''album'' (\<lambda>v t. t\<lparr>album := v\<rparr>) t of
        None \<Rightarrow> None
      | Some t1 \<Rightarrow>
     (case take_tag tags ''artist'' (\<lambda>v t. t\<lparr>artist := v\<rparr>) t1 of
        None \<Rightarrow> None
      | Some t2 \<Rightarrow>
     (case take_tag tags ''title'' (\<lambda>v t. t\<lparr>title := v\<rparr>) t2 of
        None \<Rightarrow> None
      | Some t3 \<Rightarrow> Some ((take_tracknumber e tags t3)\<lparr>duration := len\<rparr>))))"

text \<open>For MP3 any exception while reading the tags falls back to the file name as
  title and keeps the fields already set.\<close>

definition mp3_tags :: "env \<Rightarrow> tag_dict option \<Rightarrow> int \<Rightarrow> track_info \<Rightarrow> track_info" where
  "mp3_tags e id3 len t =
     (let fallback = (\<lambda>t. t\<lparr>title := splitext_root (filename t)\<rparr>);
          t' = (case id3 of
                  None \<Rightarrow> fallback t
                | Some tags \<Rightarrow>
               (case take_tag tags ''album'' (\<lambda>v t. t\<lparr>album := v\<rparr>) t of
                  None \<Rightarrow> fallback t
                | Some t1 \<Rightarrow>
               (case take_tag tags ''artist'' (\<lambda>v t. t\<lparr>artist := v\<rparr>) t1 of
                  None \<Rightarrow> fallback t1
                | Some t2 \<Rightarrow>
               (case take_tag tags ''title'' (\<lambda>v t. t\<lparr>title := v\<rparr>) t2 of
                  None \<Rightarrow> fallback t2
                | Some t3 \<Rightarrow> take_tracknumber e tags t3))))
      in t'\<lparr>duration := len\<rparr>)"

text \<open>Lines 164 to 171: album and artist from the directory names.\<close>

definition path_fallback :: "string \<Rightarrow> track_info \<Rightarrow> track_info" where
  "path_fallback file_path t =
     (if album t = [] \<or> artist t = [] then
        (let parts = split_on os_sep (str_replace mount_point [] file_path);
             n = length parts
         in if n \<ge> 3 then
              (let t1 = (if artist t = [] then t\<lparr>artist := parts ! (n - 3)\<rparr> else t)
               in if album t1 = [] then t1\<lparr>album := parts ! (n - 2)\<rparr> else t1)
            else t)
      else t)"

text \<open>Lines 173 to 175.\<close>

definition track_id :: "env \<Rightarrow> string \<Rightarrow> string" where
  "track_id e file_path = str_int (py_hash e file_path)"

text \<open>\<^verbatim>\<open>_process_audio_file\<close>: every exception is caught and logged, the library is then
  left as it was.\<close>

definition process_audio_file :: "env \<Rightarrow> string \<Rightarrow> music_library \<Rightarrow> music_library" where
  "process_audio_file e file_path lib =
     (let fname = basename file_path
      in if startswith fname ''.'' \<or> startswith fname ''._'' then lib
         else
           (case mutagen e file_path of
              NoAudio \<Rightarrow> lib
            | OpenFails \<Rightarrow> lib
            | audio \<Rightarrow>
                (case getsize e file_path of
                   None \<Rightarrow> lib
                 | Some sz \<Rightarrow>
                     (let t0 = \<lparr>path = file_path, filename = basename file_path,
                                size_bytes = sz, album = [], artist = [], title = [],
                                track_number = 0, duration = 0\<rparr>;
                          extracted =
                            (case audio of
                               IsFLAC tags len \<Rightarrow> flac_tags e tags len t0
                             | IsMP3 id3 len \<Rightarrow> Some (mp3_tags e id3 len t0)
                             | OtherAudio len \<Rightarrow>
                                 (let t1 = t0\<lparr>title := splitext_root (filename t0)\<rparr>
                                  in Some (case len of None \<Rightarrow> t1
                                           | Some l \<Rightarrow> t1\<lparr>duration := l\<rparr>))
                             | _ \<Rightarrow> None)
                      in case extracted of
                           None \<Rightarrow> lib
                         | Some t \<Rightarrow>
                             lib\<lparr>library :=
                                   AList.update (track_id e file_path)
                                     (path_fallback file_path t) (library lib)\<rparr>))))"

subsection \<open>Aggregation\<close>

text \<open>One iteration of the loop of \<^verbatim>\<open>_organize_library\<close>.\<close>

definition album_key_of :: "env \<Rightarrow> track_info \<Rightarrow> string" where
  "album_key_of e track = str_lower e (artist track @ '' - '' @ album track)"

definition add_track :: "env \<Rightarrow> string \<times> track_info \<Rightarrow> music_library \<Rightarrow> music_library" where
  "add_track e entry lib =
     (let tid = fst entry; track = snd entry;
          album_key = album_key_of e track;
          albums1 = (if map_of (albums lib) album_key = None
                     then AList.update album_key
                            \<lparr>album_name = album track, album_artist = artist track,
                             album_tracks = [], album_track_count = 0\<rparr> (albums lib)
                     else albums lib);
          albums2 = AList.map_entry album_key
                      (\<lambda>a. a\<lparr>album_tracks := album_tracks a @ [tid]\<rparr>) albums1;
          albums3 = AList.map_entry album_key
                      (\<lambda>a. a\<lparr>album_track_count := album_track_count a + 1\<rparr>) albums2;
          artist_key = str_lower e (artist track);
          artists1 = (if map_of (artists lib) artist_key = None
                      then AList.update artist_key
                             \<lparr>artist_name = artist track, artist_albums = [],
                              artist_tracks = []\<rparr> (artists lib)
                      else artists lib);
          artists2 = AList.map_entry artist_key
                       (\<lambda>r. r\<lparr>artist_albums := List.insert album_key (artist_albums r)\<rparr>) artists1;
          artists3 = AList.map_entry artist_key
                       (\<lambda>r. r\<lparr>artist_tracks := artist_tracks r @ [tid]\<rparr>) artists2
      in lib\<lparr>albums := albums3, artists := artists3\<rparr>)"

text \<open>
  The second loop: each album's id list is sorted by the track number found in
  \<^verbatim>\<open>self.library\<close>.  \<^verbatim>\<open>list.sort\<close> is a stable sort, as \<open>sort_key\<close> is; an id that is not
  in the library raises \<^verbatim>\<open>KeyError\<close> and leaves that list and the later albums as
  they were.
\<close>

definition track_number_of :: "(string \<times> track_info) list \<Rightarrow> string \<Rightarrow> int" where
  "track_number_of lib_tracks tid =
     (case map_of lib_tracks tid of None \<Rightarrow> 0 | Some t \<Rightarrow> track_number t)"

fun sort_albums ::
  "(string \<times> track_info) list \<Rightarrow> (string \<times> album_entry) list
     \<Rightarrow> unit outcome \<times> (string \<times> album_entry) list" where
  "sort_albums lib_tracks [] = (Returns (), [])"
| "sort_albums lib_tracks (ka # rest) =
     (if list_all (\<lambda>i. map_of lib_tracks i \<noteq> None) (album_tracks (snd ka)) then
        (case sort_albums lib_tracks rest of
           (r, rest') \<Rightarrow>
             (r, (fst ka, (snd ka)\<lparr>album_tracks :=
                    sort_key (track_number_of lib_tracks) (album_tracks (snd ka))\<rparr>) # rest'))
      else (Raises KeyError, ka # rest))"

definition organize_library :: "env \<Rightarrow> music_library \<Rightarrow> unit outcome \<times> music_library" where
  "organize_library e lib =
     (case aggregation_error e of
        Some n \<Rightarrow> (Raises UnexpectedError, fold (add_track e) (take n (library lib)) lib)
      | None \<Rightarrow>
          (let lib1 = fold (add_track e) (library lib) lib;
               (r, albums') = sort_albums (library lib1) (albums lib1)
           in (r, lib1\<lparr>albums := albums'\<rparr>)))"

subsection \<open>Persistence\<close>

definition track_json :: "track_info \<Rightarrow> pyval" where
  "track_json t =
     PDict [(''path'', PStr (path t)), (''filename'', PStr (filename t)),
            (''size'', PInt (size_bytes t)), (''album'', PStr (album t)),
            (''artist'', PStr (artist t)), (''title'', PStr (title t)),
            (''track_number'', PInt (track_number t)), (''duration'', PInt (duration t))]"

definition album_json :: "album_entry \<Rightarrow> pyval" where
  "album_json a =
     PDict [(''name'', PStr (album_name a)), (''artist'', PStr (album_artist a)),
            (''tracks'', PList (map PStr (album_tracks a))),
            (''track_count'', PInt (album_track_count a))]"

definition artist_json :: "artist_entry \<Rightarrow> pyval" where
  "artist_json r =
     PDict [(''name'', PStr (artist_name r)),
            (''albums'', PSet (map PStr (artist_albums r))),
            (''tracks'', PList (map PStr (artist_tracks r)))]"

text \<open>The dict \<^verbatim>\<open>cache_data\<close> of \<^verbatim>\<open>save_cache\<close>: the object's own dicts, as they are.\<close>

definition cache_data :: "music_library \<Rightarrow> pyval" where
  "cache_data lib =
     PDict [(''tracks'', PDict (map (\<lambda>(k, t). (k, track_json t)) (library lib))),
            (''albums'', PDict (map (\<lambda>(k, a). (k, album_json a)) (albums lib))),
            (''artists'', PDict (map (\<lambda>(k, r). (k, artist_json r)) (artists lib))),
            (''indexed_time'', PInt (indexed_time lib))]"

definition save_cache :: "music_library \<Rightarrow> disk \<Rightarrow> disk" where
  "save_cache lib d = fst (cache_save (cache_data lib) d)"

subsection \<open>Indexing\<close>

definition wanted_file :: "env \<Rightarrow> string \<Rightarrow> bool" where
  "wanted_file e file =
     (\<not> startswith file ''._'' \<and> list_ex (endswith (str_lower e file)) supported_extensions)"

definition scan_dir :: "env \<Rightarrow> string \<times> string list \<Rightarrow> music_library \<Rightarrow> music_library" where
  "scan_dir e d lib =
     fold (\<lambda>file lib. if wanted_file e file
                        then process_audio_file e (path_join (fst d) file) lib else lib)
       (snd d) lib"

text \<open>
  \<^verbatim>\<open>index_library\<close> on the object and the disk.  Nothing catches an exception of
  \<^verbatim>\<open>_organize_library\<close>: it leaves \<^verbatim>\<open>index_library\<close> as it is, after the three dicts
  were emptied and filled again.
\<close>

definition index_library ::
  "env \<Rightarrow> bool \<Rightarrow> music_library \<times> disk \<Rightarrow> bool outcome \<times> music_library \<times> disk" where
  "index_library e force st =
     (let lib = fst st; d = snd st
      in if \<not> mount_ok e then (Returns False, lib, d)
         else if \<not> force \<and> real_of_int (indexed_time lib) > clock_check e - 86400
                 \<and> albums lib \<noteq> []
         then (Returns True, lib, d)
         else
           (let lib1 = lib\<lparr>library := [], albums := [], artists := []\<rparr>;
                lib2 = fold (scan_dir e) (os_walk e) lib1
            in case organize_library e lib2 of
                 (Raises err, lib3) \<Rightarrow> (Raises err, lib3, d)
               | (Returns u, lib3) \<Rightarrow>
                   (let lib4 = lib3\<lparr>indexed_time := int_of_float (clock_done e)\<rparr>
                    in (Returns True, lib4, save_cache lib4 d))))"

subsection \<open>Queries\<close>

definition summary_of :: "string \<times> album_entry \<Rightarrow> album_summary" where
  "summary_of ka =
     \<lparr>key = fst ka, name = album_name (snd ka), summary_artist = album_artist (snd ka),
      track_count = album_track_count (snd ka)\<rparr>"

text \<open>The test of line 224 and the sort key of lines 233 to 237, for the lowered query.\<close>

definition album_matches :: "env \<Rightarrow> string \<Rightarrow> string \<times> album_entry \<Rightarrow> bool" where
  "album_matches e q ka =
     (str_in q (fst ka) \<or> str_in q (str_lower e (album_name (snd ka)))
      \<or> str_in q (str_lower e (album_artist (snd ka))))"

definition relevance :: "env \<Rightarrow> string \<Rightarrow> album_summary \<Rightarrow> nat" where
  "relevance e q x =
     (if str_lower e (name x) = q then 0
      else if str_in q (str_lower e (name x)) then 1 else 2)"

definition search_album ::
  "env \<Rightarrow> string \<Rightarrow> music_library \<times> disk
     \<Rightarrow> album_summary list outcome \<times> music_library \<times> disk" where
  "search_album e query st =
     (let indexed = (if albums (fst st) = [] then index_library e False st
                     else (Returns True, st))
      in case indexed of
           (Raises err, st') \<Rightarrow> (Raises err, st')
         | (Returns False, st') \<Rightarrow> (Returns [], st')
         | (Returns True, st') \<Rightarrow>
             (let q = str_lower e query;
                  results = map summary_of (filter (album_matches e q) (albums (fst st')))
              in (Returns (sort_key (relevance e q) results), st')))"

definition get_album_tracks :: "string \<Rightarrow> music_library \<Rightarrow> track_info list" where
  "get_album_tracks album_key lib =
     (case map_of (albums lib) album_key of
        None \<Rightarrow> []
      | Some a \<Rightarrow>
          sort_key track_number (List.map_filter (map_of (library lib)) (album_tracks a)))"

section \<open>Example inputs\<close>

text \<open>A three-track album under the mount point, as the player and the queries see it.\<close>

definition example_track :: "string \<Rightarrow> int \<Rightarrow> track_info" where
  "example_track file n =
     \<lparr>path = ''/home/jay/music_server/Artist/AlbumX/'' @ file, filename = file,
      size_bytes = 1000, album = ''AlbumX'', artist = ''Artist'', title = file,
      track_number = n, duration = 180\<rparr>"

definition example_tracks :: "track_info list" where
  "example_tracks =
     [example_track ''a.flac'' 1, example_track ''b.flac'' 2, example_track ''c.flac'' 3]"

definition example_album :: album_summary where
  "example_album =
     \<lparr>key = ''artist - albumx'', name = ''AlbumX'', summary_artist = ''Artist'',
      track_count = 3\<rparr>"

definition playing_player :: player where
  "playing_player = exec Play (snd (load_playlist example_album example_tracks (init_player 70)))"

text \<open>
  A library tree with two untagged FLAC files under \<^verbatim>\<open>Artist/AlbumX\<close>, and the string
  hashes of two interpreter processes (the values CPython 3.11 gives with hash seeds 1
  and 2).
\<close>

definition song1 :: string where
  "song1 = ''/home/jay/music_server/Artist/AlbumX/01 - Song.flac''"

definition song2 :: string where
  "song2 = ''/home/jay/music_server/Artist/AlbumX/02 - Song2.flac''"

definition song_in_album_dir :: string where
  "song_in_album_dir = ''/home/jay/music_server/AlbumX/01 - Song.flac''"

definition hash_seed_1 :: "string \<Rightarrow> int" where
  "hash_seed_1 p =
     (if p = song1 then - 8384710479420736860
      else if p = song2 then - 7887328263489356057
      else if p = song_in_album_dir then - 8832850285382074138 else 0)"

definition hash_seed_2 :: "string \<Rightarrow> int" where
  "hash_seed_2 p =
     (if p = song1 then 7665349445727741210
      else if p = song2 then - 1566207537498341449
      else if p = song_in_album_dir then - 4116272886482608450 else 0)"

definition example_env :: env where
  "example_env =
     \<lparr>mount_ok = True, clock_check = 1700000000.25, clock_done = 1700000003.5,
      os_walk = [(''/home/jay/music_server'', []),
                 (''/home/jay/music_server/Artist'', []),
                 (''/home/jay/music_server/Artist/AlbumX'',
                    [''01 - Song.flac'', ''02 - Song2.flac''])],
      mutagen = (\<lambda>p. IsFLAC [] 180), getsize = (\<lambda>p. Some 1000),
      int_of_str = (\<lambda>s. None), str_lower = latin1_lower, py_hash = hash_seed_1,
      aggregation_error = None\<rparr>"

text \<open>The object \<^verbatim>\<open>MusicLibrary()\<close> builds when there is no cache file, and that disk.\<close>

definition new_library :: music_library where
  "new_library = \<lparr>library = [], albums = [], artists = [], indexed_time = 0\<rparr>"

definition fresh_disk :: disk where
  "fresh_disk = \<lparr>cache_file = None, cache_writable = True\<rparr>"

definition untagged :: "string \<Rightarrow> string \<Rightarrow> track_info" where
  "untagged p f =
     \<lparr>path = p, filename = f, size_bytes = 1000, album = ''AlbumX'', artist = ''Artist'',
      title = [], track_number = 0, duration = 180\<rparr>"

text \<open>The library that indexing this tree builds (see \<open>index_example\<close> below).\<close>

definition example_library :: music_library where
  "example_library =
     \<lparr>library = [(''-8384710479420736860'', untagged song1 ''01 - Song.flac''),
                 (''-7887328263489356057'', untagged song2 ''02 - Song2.flac'')],
      albums = [(''artist - albumx'',
                 \<lparr>album_name = ''AlbumX'', album_artist = ''Artist'',
                  album_tracks = [''-8384710479420736860'', ''-7887328263489356057''],
                  album_track_count = 2\<rparr>)],
      artists = [(''artist'',
                  \<lparr>artist_name = ''Artist'', artist_albums = [''artist - albumx''],
                   artist_tracks = [''-8384710479420736860'', ''-7887328263489356057'']\<rparr>)],
      indexed_time = 1700000003\<rparr>"

text \<open>The disk after that library was saved: the encoder stopped at the artist's set.\<close>

definition example_disk :: disk where
  "example_disk = \<lparr>cache_file = Some Malformed_text, cache_writable = True\<rparr>"

text \<open>The same share a day later, when the second file is gone, and the library that
  a scan then builds.\<close>

definition rescan_env :: env where
  "rescan_env =
     example_env
       \<lparr>clock_check := 1700086404.25, clock_done := 1700086405.5,
        os_walk := [(''/home/jay/music_server'', []),
                    (''/home/jay/music_server/Artist'', []),
                    (''/home/jay/music_server/Artist/AlbumX'', [''01 - Song.flac''])]\<rparr>"

definition one_track_library :: music_library where
  "one_track_library =
     \<lparr>library = [(''-8384710479420736860'', untagged song1 ''01 - Song.flac'')],
      albums = [(''artist - albumx'',
                 \<lparr>album_name = ''AlbumX'', album_artist = ''Artist'',
                  album_tracks = [''-8384710479420736860''], album_track_count = 1\<rparr>)],
      artists = [(''artist'',
                  \<lparr>artist_name = ''Artist'', artist_albums = [''artist - albumx''],
                   artist_tracks = [''-8384710479420736860'']\<rparr>)],
      indexed_time = 1700086405\<rparr>"

text \<open>The example share on a run where \<^verbatim>\<open>_organize_library\<close> raises after the first
  track.\<close>

definition failing_env :: env where
  "failing_env = example_env\<lparr>aggregation_error := Some 1\<rparr>"

text \<open>Three tracks of one album, discovered out of track order and with a tie.\<close>

definition unsorted_library :: music_library where
  "unsorted_library =
     \<lparr>library = [(''11'', example_track ''b.flac'' 2), (''12'', example_track ''a.flac'' 1),
                 (''13'', example_track ''c.flac'' 2)],
      albums = [], artists = [], indexed_time = 0\<rparr>"

text \<open>Three albums that match the query \<^verbatim>\<open>AlbumX\<close> by artist, by part of the name and
  by the whole name, inserted in that order.\<close>

definition search_library :: music_library where
  "search_library =
     \<lparr>library = [],
      albums = [(''the albumx band - live'',
                 \<lparr>album_name = ''Live'', album_artist = ''The AlbumX Band'',
                  album_tracks = [], album_track_count = 0\<rparr>),
                (''other - albumx deluxe'',
                 \<lparr>album_name = ''AlbumX Deluxe'', album_artist = ''Other'',
                  album_tracks = [], album_track_count = 0\<rparr>),
                (''artist - albumx'',
                 \<lparr>album_name = ''AlbumX'', album_artist = ''Artist'',
                  album_tracks = [], album_track_count = 0\<rparr>)],
      artists = [], indexed_time = 1700000003\<rparr>"

text \<open>What searching them for \<^verbatim>\<open>AlbumX\<close> returns (see \<open>search_example\<close> below).\<close>

definition search_results :: "album_summary list" where
  "search_results =
     [\<lparr>key = ''artist - albumx'', name = ''AlbumX'', summary_artist = ''Artist'',
       track_count = 0\<rparr>,
      \<lparr>key = ''other - albumx deluxe'', name = ''AlbumX Deluxe'', summary_artist = ''Other'',
       track_count = 0\<rparr>,
      \<lparr>key = ''the albumx band - live'', name = ''Live'',
       summary_artist = ''The AlbumX Band'', track_count = 0\<rparr>]"

text \<open>Two albums with a capital letter outside ASCII (U+00C0, whose small letter is
  U+00E0): \<^verbatim>\<open>Live a Paris\<close> and \<^verbatim>\<open>A Paris\<close> with a grave accent on the a, inserted in
  that order.\<close>

definition paris_library :: music_library where
  "paris_library =
     \<lparr>library = [],
      albums = [(''x - live '' @ CHR 0xE0 # '' paris'',
                 \<lparr>album_name = ''Live '' @ CHR 0xE0 # '' Paris'', album_artist = ''X'',
                  album_tracks = [], album_track_count = 0\<rparr>),
                (''x - '' @ CHR 0xE0 # '' paris'',
                 \<lparr>album_name = CHR 0xC0 # '' Paris'', album_artist = ''X'',
                  album_tracks = [], album_track_count = 0\<rparr>)],
      artists = [], indexed_time = 1700000003\<rparr>"

declare str_replace.simps [simp del] digits.simps [simp del]

section \<open>Properties of the player\<close>

lemma exec_playlist: "current_playlist (exec c p) = current_playlist p"
  by (cases c)
     (auto simp: play_def pause_def stop_def next_track_def previous_track_def set_volume_def
        on_media_end_def start_monitor_def vlc_def Let_def split: option.splits)

lemma exec_index_in_range:
  assumes "0 \<le> current_track_index p"
    and "current_track_index p < int (length (current_playlist p))"
  shows "0 \<le> current_track_index (exec c p) \<and>
         current_track_index (exec c p) < int (length (current_playlist (exec c p)))"
proof (cases c)
  case NextTrack
  then show ?thesis using assms by (auto simp: next_track_def vlc_def)
next
  case PreviousTrack
  then show ?thesis using assms by (auto simp: previous_track_def vlc_def)
next
  case MediaEnd
  then show ?thesis using assms by (auto simp: on_media_end_def Let_def)
qed (use assms in \<open>auto simp: play_def pause_def stop_def set_volume_def start_monitor_def
       vlc_def Let_def split: option.splits\<close>)

lemma run_index_in_range:
  "0 \<le> current_track_index p \<Longrightarrow> current_track_index p < int (length (current_playlist p))
   \<Longrightarrow> 0 \<le> current_track_index (run cs p) \<and>
       current_track_index (run cs p) < int (length (current_playlist (run cs p)))"
proof (induction cs arbitrary: p)
  case Nil
  then show ?case by simp
next
  case (Cons c cs)
  from exec_index_in_range [OF Cons.prems] show ?case
    by (simp add: Cons.IH)
qed

lemma playing_has_playlist: "reachable p \<Longrightarrow> state p = PLAYING \<Longrightarrow> current_playlist p \<noteq> []"
proof (induction rule: reachable.induct)
  case (init v)
  then show ?case by (simp add: init_player_def set_volume_def vlc_def)
next
  case (load p a ts)
  then show ?case by (simp add: load_playlist_def stop_def vlc_def Let_def)
next
  case (step p c)
  then show ?case
    by (cases c)
       (auto simp: play_def pause_def stop_def next_track_def previous_track_def
          set_volume_def on_media_end_def start_monitor_def vlc_def Let_def
          split: option.splits if_splits)
qed

text \<open>
  Claim C10.  After \<^verbatim>\<open>load_playlist\<close> with a non-empty track list, whatever the player
  was before, every sequence of play, pause, stop, next\_track, previous\_track,
  set\_volume and end-of-track callbacks leaves
  \<open>0 \<le> current_track_index < len(current_playlist)\<close>.
\<close>

theorem index_in_range_after_load:
  assumes "tracks \<noteq> []"
  shows "0 \<le> current_track_index (run cs (snd (load_playlist a tracks p))) \<and>
         current_track_index (run cs (snd (load_playlist a tracks p)))
           < int (length (current_playlist (run cs (snd (load_playlist a tracks p)))))"
proof (rule run_index_in_range)
  show "0 \<le> current_track_index (snd (load_playlist a tracks p))"
    by (simp add: load_playlist_def Let_def)
  show "current_track_index (snd (load_playlist a tracks p))
          < int (length (current_playlist (snd (load_playlist a tracks p))))"
    using assms by (simp add: load_playlist_def Let_def)
qed

theorem index_in_range_after_load_witness:
  "example_tracks \<noteq> [] \<and>
   0 \<le> current_track_index
         (run [Play, NextTrack, NextTrack, NextTrack, MediaEnd, Pause, PreviousTrack, SetVolume 150, Stop]
            (snd (load_playlist example_album example_tracks (init_player 70)))) \<and>
   current_track_index
     (run [Play, NextTrack, NextTrack, NextTrack, MediaEnd, Pause, PreviousTrack, SetVolume 150, Stop]
        (snd (load_playlist example_album example_tracks (init_player 70))))
     < int (length (current_playlist
         (run [Play, NextTrack, NextTrack, NextTrack, MediaEnd, Pause, PreviousTrack, SetVolume 150, Stop]
            (snd (load_playlist example_album example_tracks (init_player 70))))))"
proof -
  have nonempty: "example_tracks \<noteq> []"
    by (simp add: example_tracks_def)
  from index_in_range_after_load [OF nonempty] nonempty show ?thesis
    by blast
qed

text \<open>
  Claim C9.  On a player that is not PLAYING, \<^verbatim>\<open>pause\<close> returns False and hands back the
  player as it was, backend trace included.  On a PLAYING player \<^verbatim>\<open>pause\<close> returns True
  and leaves it PAUSED, and the \<^verbatim>\<open>play\<close> that follows returns True, leaves it PLAYING
  and keeps \<open>current_track_index\<close> and the playlist.
\<close>

theorem pause_then_play:
  assumes "reachable p"
  shows "(state p \<noteq> PLAYING \<longrightarrow> pause p = (False, p)) \<and>
         (state p = PLAYING \<longrightarrow>
            fst (pause p) = True \<and> state (snd (pause p)) = PAUSED \<and>
            current_track_index (snd (pause p)) = current_track_index p \<and>
            fst (play (snd (pause p))) = Returns True \<and>
            state (snd (play (snd (pause p)))) = PLAYING \<and>
            current_track_index (snd (play (snd (pause p)))) = current_track_index p \<and>
            current_playlist (snd (play (snd (pause p)))) = current_playlist p)"
proof (intro conjI impI)
  assume "state p \<noteq> PLAYING"
  then show "pause p = (False, p)" by (simp add: pause_def)
next
  assume playing: "state p = PLAYING"
  with assms have nonempty: "current_playlist p \<noteq> []" by (rule playing_has_playlist)
  from playing show "fst (pause p) = True" by (simp add: pause_def)
  from playing show "state (snd (pause p)) = PAUSED" by (simp add: pause_def)
  from playing show "current_track_index (snd (pause p)) = current_track_index p"
    by (simp add: pause_def vlc_def)
  from playing nonempty show "fst (play (snd (pause p))) = Returns True"
    by (simp add: pause_def play_def vlc_def)
  from playing nonempty show "state (snd (play (snd (pause p)))) = PLAYING"
    by (simp add: pause_def play_def vlc_def start_monitor_def)
  from playing nonempty
  show "current_track_index (snd (play (snd (pause p)))) = current_track_index p"
    by (simp add: pause_def play_def vlc_def start_monitor_def)
  from playing nonempty
  show "current_playlist (snd (play (snd (pause p)))) = current_playlist p"
    by (simp add: pause_def play_def vlc_def start_monitor_def)
qed

theorem pause_then_play_witness:
  "reachable (init_player 70) \<and> state (init_player 70) \<noteq> PLAYING \<and>
   pause (init_player 70) = (False, init_player 70) \<and>
   reachable playing_player \<and> state playing_player = PLAYING \<and>
   fst (pause playing_player) = True \<and> state (snd (pause playing_player)) = PAUSED \<and>
   fst (play (snd (pause playing_player))) = Returns True \<and>
   state (snd (play (snd (pause playing_player)))) = PLAYING \<and>
   current_track_index (snd (play (snd (pause playing_player))))
     = current_track_index playing_player"
proof -
  have r0: "reachable (init_player 70)"
    by (rule reachable.init)
  have s0: "state (init_player 70) \<noteq> PLAYING"
    by (simp add: init_player_def)
  have r1: "reachable playing_player"
    unfolding playing_player_def by (intro reachable.step reachable.load reachable.init)
  have s1: "state playing_player = PLAYING"
    by (simp add: playing_player_def play_def load_playlist_def stop_def vlc_def
          start_monitor_def example_tracks_def Let_def)
  from pause_then_play [OF r0] pause_then_play [OF r1] r0 s0 r1 s1 show ?thesis
    by simp
qed

section \<open>Properties of the indexer and the cache\<close>

subsection \<open>Track identifiers\<close>

text \<open>\<open>str\<close> of an integer is injective: the decimal digits determine the number, and
  only negative numbers start with a minus sign.\<close>

lemma digit_char_inj: "a < 10 \<Longrightarrow> b < 10 \<Longrightarrow> digit_char a = digit_char b \<Longrightarrow> a = b"
proof -
  assume a: "a < 10" and b: "b < 10" and eq: "digit_char a = digit_char b"
  have d: "distinct ''0123456789''" by simp
  from a b have "a < length ''0123456789''" "b < length ''0123456789''" by simp_all
  with d eq show "a = b"
    unfolding digit_char_def by (simp only: nth_eq_iff_index_eq)
qed

lemma digit_char_not_minus: "d < 10 \<Longrightarrow> digit_char d \<noteq> CHR ''-''"
proof -
  assume "d < 10"
  then have "d < length ''0123456789''" by simp
  then have "digit_char d \<in> set ''0123456789''"
    unfolding digit_char_def by (rule nth_mem)
  then show ?thesis by auto
qed

lemma digits_nonempty: "digits n \<noteq> []"
  by (subst digits.simps) simp

lemma digits_length: "length (digits n) = Suc 0 \<longleftrightarrow> n < 10"
  by (subst digits.simps) (simp add: digits_nonempty)

lemma digits_no_minus: "CHR ''-'' \<notin> set (digits n)"
proof (induction n rule: digits.induct)
  case (1 n)
  show ?case
  proof (cases "n < 10")
    case True
    then show ?thesis using digit_char_not_minus [of n]
      by (subst digits.simps) auto
  next
    case False
    then show ?thesis using 1 digit_char_not_minus [of "n mod 10"]
      by (subst digits.simps) auto
  qed
qed

lemma digits_inj: "digits n = digits m \<Longrightarrow> n = m"
proof (induction n arbitrary: m rule: digits.induct)
  case (1 n)
  show ?case
  proof (cases "n < 10")
    case True
    then have "length (digits n) = Suc 0" by (simp add: digits_length)
    with 1 have "length (digits m) = Suc 0" by simp
    then have m: "m < 10" by (simp add: digits_length)
    from True m 1(2) have "digit_char n = digit_char m"
      by (simp add: digits.simps [of n] digits.simps [of m])
    with True m show ?thesis by (rule digit_char_inj)
  next
    case False
    then have "length (digits n) \<noteq> Suc 0" by (simp add: digits_length)
    with 1 have "length (digits m) \<noteq> Suc 0" by simp
    then have m: "\<not> m < 10" by (simp add: digits_length)
    from False m 1(2)
    have eq: "digits (n div 10) @ [digit_char (n mod 10)] = digits (m div 10) @ [digit_char (m mod 10)]"
      by (simp add: digits.simps [of n] digits.simps [of m])
    then have "digits (n div 10) = digits (m div 10)" and "digit_char (n mod 10) = digit_char (m mod 10)"
      by simp_all
    with 1(1) [OF False] have "n div 10 = m div 10" and "n mod 10 = m mod 10"
      by (auto intro: digit_char_inj)
    then show ?thesis by (metis div_mult_mod_eq)
  qed
qed

lemma str_int_inj: "str_int i = str_int j \<Longrightarrow> i = j"
proof -
  assume eq: "str_int i = str_int j"
  have hd_digit: "hd (digits n) \<noteq> CHR ''-''" for n
    using digits_no_minus [of n] digits_nonempty [of n] by (cases "digits n") auto
  show "i = j"
  proof (cases "i < 0"; cases "j < 0")
    assume "i < 0" "j < 0"
    with eq have "digits (nat (- i)) = digits (nat (- j))" by (simp add: str_int_def)
    then have "nat (- i) = nat (- j)" by (rule digits_inj)
    with \<open>i < 0\<close> \<open>j < 0\<close> show ?thesis by simp
  next
    assume "i < 0" "\<not> j < 0"
    with eq have "CHR ''-'' # digits (nat (- i)) = digits (nat j)" by (simp add: str_int_def)
    with hd_digit [of "nat j"] show ?thesis by (metis list.sel(1))
  next
    assume "\<not> i < 0" "j < 0"
    with eq have "digits (nat i) = CHR ''-'' # digits (nat (- j))" by (simp add: str_int_def)
    with hd_digit [of "nat i"] show ?thesis by (metis list.sel(1))
  next
    assume "\<not> i < 0" "\<not> j < 0"
    with eq have "digits (nat i) = digits (nat j)" by (simp add: str_int_def)
    then have "nat i = nat j" by (rule digits_inj)
    with \<open>\<not> i < 0\<close> \<open>\<not> j < 0\<close> show ?thesis by simp
  qed
qed

text \<open>
  Claim C3.  The track id is \<^verbatim>\<open>str(hash(file_path))\<close>, and \<^verbatim>\<open>hash\<close> of a string is keyed
  by the interpreter process.  Two processes give one path the same id exactly when
  their hashes of that path agree: the id is a function of the path and the process,
  not of the path alone.  The same file gets two different ids in two example processes.
\<close>

theorem track_id_follows_hash:
  "(track_id e1 p = track_id e2 p \<longleftrightarrow> py_hash e1 p = py_hash e2 p) \<and>
   track_id example_env song1 = ''-8384710479420736860'' \<and>
   track_id (example_env\<lparr>py_hash := hash_seed_2\<rparr>) song1 = ''7665349445727741210''"
proof (intro conjI)
  show "track_id e1 p = track_id e2 p \<longleftrightarrow> py_hash e1 p = py_hash e2 p"
    by (auto simp: track_id_def dest: str_int_inj)
  show "track_id example_env song1 = ''-8384710479420736860''"
    by (simp add: track_id_def example_env_def hash_seed_1_def str_int_def
          digits.simps digit_char_def)
  show "track_id (example_env\<lparr>py_hash := hash_seed_2\<rparr>) song1 = ''7665349445727741210''"
    by (simp add: track_id_def hash_seed_2_def str_int_def digits.simps digit_char_def)
qed

subsection \<open>Loading and saving the cache file\<close>




text \<open>The encoder refuses the data of every library that has an artist: an artist's
  albums are a set.\<close>

lemma artist_json_not_serializable: "\<not> json_serializable (artist_json r)"
  by (simp add: artist_json_def)

lemma cache_data_not_serializable:
  assumes "artists lib \<noteq> []"
  shows "\<not> json_serializable (cache_data lib)"
proof -
  from assms obtain k r rest where "artists lib = (k, r) # rest"
    by (cases "artists lib") auto
  then show ?thesis
    by (simp add: cache_data_def artist_json_not_serializable)
qed

text \<open>
  Claim C1 fails on the code.  For every library with at least one artist, saving to
  a writable disk leaves a file that is no JSON document, and loading it returns the
  empty dict and logs an error: a library built by the indexer never survives the
  round trip.
\<close>

theorem cache_round_trip_fails:
  assumes "library lib \<noteq> []" and "albums lib \<noteq> []" and "artists lib \<noteq> []"
    and "cache_writable d"
  shows "cache_file (save_cache lib d) = Some Malformed_text \<and>
         cache_load (save_cache lib d) = (Returns (PDict []), [Error_loading_library_cache]) \<and>
         cache_data lib \<noteq> PDict []"
  using assms cache_data_not_serializable [of lib]
  by (simp add: save_cache_def cache_save_def cache_load_def cache_data_def)

theorem cache_round_trip_fails_witness:
  "library example_library \<noteq> [] \<and> albums example_library \<noteq> [] \<and>
   artists example_library \<noteq> [] \<and> cache_writable fresh_disk \<and>
   cache_file (save_cache example_library fresh_disk) = Some Malformed_text \<and>
   cache_load (save_cache example_library fresh_disk)
     = (Returns (PDict []), [Error_loading_library_cache]) \<and>
   cache_data example_library \<noteq> PDict []"
proof -
  have a: "library example_library \<noteq> []" and b: "albums example_library \<noteq> []"
    and c: "artists example_library \<noteq> []"
    by (simp_all add: example_library_def)
  have d: "cache_writable fresh_disk"
    by (simp add: fresh_disk_def)
  from cache_round_trip_fails [OF a b c d] a b c d show ?thesis
    by blast
qed

subsection \<open>Album and artist from the path\<close>

lemma parts_song_in_album_dir:
  "split_on os_sep (str_replace mount_point [] song_in_album_dir) = [[], ''AlbumX'', ''01 - Song.flac'']"
  by code_simp

lemma basename_song_in_album_dir: "basename song_in_album_dir = ''01 - Song.flac''"
  by code_simp

lemma not_hidden_01: "\<not> startswith ''01 - Song.flac'' ''.''" "\<not> startswith ''01 - Song.flac'' ''._''"
  by (simp_all add: startswith_def)

lemma hash_song_in_album_dir: "hash_seed_1 song_in_album_dir = - 8832850285382074138"
  by (simp add: hash_seed_1_def song_in_album_dir_def song1_def song2_def)

lemma str_int_song_in_album_dir: "str_int (- 8832850285382074138) = ''-8832850285382074138''"
  by (simp add: str_int_def digits.simps digit_char_def)

lemma flac_tags_untagged: "flac_tags e [] len t = Some (t\<lparr>duration := len\<rparr>)"
  by (simp add: flac_tags_def take_tag_def take_tracknumber_def)

text \<open>
  Claim C5 fails on the code.  The path left after removing the mount point starts with
  the separator, so \<^verbatim>\<open>split\<close> gives an empty first part: a file two components below
  the mount root (\<^verbatim>\<open>AlbumX/01 - Song.flac\<close>) has three parts, passes the test
  \<^verbatim>\<open>len(parts) >= 3\<close> and gets its directory as album, where the claim keeps the album
  empty.
\<close>

theorem album_from_two_component_path:
  "split_on os_sep (str_replace mount_point [] song_in_album_dir)
     = [[], ''AlbumX'', ''01 - Song.flac''] \<and>
   library (process_audio_file example_env song_in_album_dir new_library)
     = [(''-8832850285382074138'',
         \<lparr>path = song_in_album_dir, filename = ''01 - Song.flac'', size_bytes = 1000,
          album = ''AlbumX'', artist = [], title = [], track_number = 0, duration = 180\<rparr>)]"
proof
  show "split_on os_sep (str_replace mount_point [] song_in_album_dir)
          = [[], ''AlbumX'', ''01 - Song.flac'']"
    by (rule parts_song_in_album_dir)
  show "library (process_audio_file example_env song_in_album_dir new_library)
     = [(''-8832850285382074138'',
         \<lparr>path = song_in_album_dir, filename = ''01 - Song.flac'', size_bytes = 1000,
          album = ''AlbumX'', artist = [], title = [], track_number = 0, duration = 180\<rparr>)]"
    by (simp add: process_audio_file_def basename_song_in_album_dir not_hidden_01 flac_tags_untagged
          path_fallback_def parts_song_in_album_dir track_id_def hash_song_in_album_dir
          str_int_song_in_album_dir example_env_def new_library_def Let_def)
qed

subsection \<open>Aggregation\<close>

text \<open>The track ids of an album after one more track, and after a list of tracks: the
  ids of the tracks with that album key are appended in the order of the list.\<close>

lemma add_track_album_tracks:
  "(case map_of (albums (add_track e x lib)) k of None \<Rightarrow> [] | Some a \<Rightarrow> album_tracks a)
   = (case map_of (albums lib) k of None \<Rightarrow> [] | Some a \<Rightarrow> album_tracks a)
     @ (if album_key_of e (snd x) = k then [fst x] else [])"
  by (auto simp: add_track_def Let_def AList.map_of_map_entry AList.update_conv'
        split: option.splits)

lemma fold_add_track_album_tracks:
  "(case map_of (albums (fold (add_track e) xs lib)) k of None \<Rightarrow> [] | Some a \<Rightarrow> album_tracks a)
   = (case map_of (albums lib) k of None \<Rightarrow> [] | Some a \<Rightarrow> album_tracks a)
     @ map fst (filter (\<lambda>x. album_key_of e (snd x) = k) xs)"
proof (induction xs arbitrary: lib)
  case Nil
  then show ?case by simp
next
  case (Cons x xs)
  show ?case
    by (simp only: fold_simps Cons.IH add_track_album_tracks) simp
qed

lemma add_track_library [simp]: "library (add_track e x lib) = library lib"
  by (simp add: add_track_def Let_def)

lemma add_track_indexed_time [simp]: "indexed_time (add_track e x lib) = indexed_time lib"
  by (simp add: add_track_def Let_def)

lemma fold_add_track_library [simp]: "library (fold (add_track e) xs lib) = library lib"
  by (induction xs arbitrary: lib) simp_all

lemma fold_add_track_indexed_time [simp]:
  "indexed_time (fold (add_track e) xs lib) = indexed_time lib"
  by (induction xs arbitrary: lib) simp_all

lemma add_track_distinct:
  "distinct (map fst (albums lib)) \<Longrightarrow> distinct (map fst (albums (add_track e x lib)))"
  by (simp add: add_track_def Let_def AList.distinct_update AList.distinct_map_entry)

lemma fold_add_track_distinct:
  "distinct (map fst (albums lib)) \<Longrightarrow> distinct (map fst (albums (fold (add_track e) xs lib)))"
  by (induction xs arbitrary: lib) (simp_all add: add_track_distinct)

text \<open>Aggregating from empty album dicts: every stored id is a key of the library.\<close>

lemma aggregated_album_tracks:
  assumes "albums lib = []" and "(k, a) \<in> set (albums (fold (add_track e) xs lib))"
  shows "album_tracks a = map fst (filter (\<lambda>x. album_key_of e (snd x) = k) xs)"
proof -
  from assms(1) have "distinct (map fst (albums (fold (add_track e) xs lib)))"
    by (intro fold_add_track_distinct) simp
  with assms(2) have "map_of (albums (fold (add_track e) xs lib)) k = Some a"
    by simp
  with fold_add_track_album_tracks [of e xs lib k] assms(1) show ?thesis
    by simp
qed

lemma sort_albums_present:
  assumes "\<forall>ka \<in> set A. \<forall>i \<in> set (album_tracks (snd ka)). map_of L i \<noteq> None"
  shows "sort_albums L A =
           (Returns (),
            map (\<lambda>(k, a). (k, a\<lparr>album_tracks := sort_key (track_number_of L) (album_tracks a)\<rparr>)) A)"
  using assms by (induction A) (auto simp: list_all_iff case_prod_beta)

lemma organize_library_from_empty:
  assumes "albums lib = []" and "aggregation_error e = None"
  shows "organize_library e lib =
           (Returns (),
            (fold (add_track e) (library lib) lib)
              \<lparr>albums :=
                 map (\<lambda>(k, a). (k, a\<lparr>album_tracks :=
                        sort_key (track_number_of (library lib)) (album_tracks a)\<rparr>))
                   (albums (fold (add_track e) (library lib) lib))\<rparr>)"
proof -
  have "\<forall>ka \<in> set (albums (fold (add_track e) (library lib) lib)).
          \<forall>i \<in> set (album_tracks (snd ka)). map_of (library lib) i \<noteq> None"
  proof (intro ballI)
    fix ka i
    assume ka: "ka \<in> set (albums (fold (add_track e) (library lib) lib))"
      and i: "i \<in> set (album_tracks (snd ka))"
    from ka have "(fst ka, snd ka) \<in> set (albums (fold (add_track e) (library lib) lib))"
      by simp
    from aggregated_album_tracks [OF assms(1) this] i
    have "i \<in> fst ` set (library lib)" by auto
    then show "map_of (library lib) i \<noteq> None"
      by (simp add: map_of_eq_None_iff)
  qed
  from sort_albums_present [OF this] assms(2) show ?thesis
    by (simp add: organize_library_def Let_def)
qed

lemma track_number_of_entry:
  assumes "distinct (map fst L)" and "x \<in> set L"
  shows "map_of L (fst x) = Some (snd x)" and "track_number_of L (fst x) = track_number (snd x)"
proof -
  from assms show "map_of L (fst x) = Some (snd x)" by simp
  then show "track_number_of L (fst x) = track_number (snd x)"
    by (simp add: track_number_of_def)
qed

lemma filter_ids_by_number:
  assumes "distinct (map fst L)"
  shows "filter (\<lambda>i. track_number_of L i = n) (map fst (filter (\<lambda>x. album_key_of e (snd x) = k) L))
         = map fst (filter (\<lambda>x. album_key_of e (snd x) = k \<and> track_number (snd x) = n) L)"
proof -
  have "filter (\<lambda>i. track_number_of L i = n) (map fst (filter (\<lambda>x. album_key_of e (snd x) = k) L))
        = map fst (filter (\<lambda>x. album_key_of e (snd x) = k \<and> track_number_of L (fst x) = n) L)"
    by (simp add: filter_map comp_def conj_commute)
  also have "filter (\<lambda>x. album_key_of e (snd x) = k \<and> track_number_of L (fst x) = n) L
             = filter (\<lambda>x. album_key_of e (snd x) = k \<and> track_number (snd x) = n) L"
    by (rule filter_cong [OF refl]) (simp add: track_number_of_entry(2) [OF assms])
  finally show ?thesis .
qed

lemma map_filter_present:
  assumes "\<forall>i \<in> set zs. map_of L i \<noteq> None"
  shows "List.map_filter (map_of L) zs = map (\<lambda>i. the (map_of L i)) zs"
  using assms by (induction zs) (auto simp: List.map_filter_simps)

lemma stored_tracks_present:
  "List.map_filter (map_of L) ids
     = map (\<lambda>i. the (map_of L i)) (filter (\<lambda>i. map_of L i \<noteq> None) ids)"
  by (simp add: List.map_filter_def comp_def)

text \<open>
  Claim C8.  First, on every library and for every key, whatever the stored order: the
  list \<^verbatim>\<open>get_album_tracks\<close> returns is ascending in the track number, and its tracks of
  one track number are the album's stored tracks of that number, in stored order (an
  unknown key gives the empty list, a stored id without a track is left out).  Second,
  aggregation starts from empty album dicts on a library dict (distinct keys);
  afterwards, for every album \<open>k\<close>: the stored id list is ascending in the track number;
  for each track number the ids with that number are exactly the album's tracks with
  that number in the order of the library dict (the order of discovery); and the list
  \<^verbatim>\<open>get_album_tracks\<close> returns keeps that same order among equal track numbers.
\<close>

theorem album_tracks_sorted_stable:
  assumes "distinct (map fst (library lib))" and "albums lib = []"
    and "aggregation_error e = None"
    and "organize_library e lib = (r, lib')" and "map_of (albums lib') k = Some a"
  shows "sorted (map track_number (get_album_tracks k0 lib0)) \<and>
     (\<forall>n. filter (\<lambda>t. track_number t = n) (get_album_tracks k0 lib0)
          = filter (\<lambda>t. track_number t = n)
              (case map_of (albums lib0) k0 of
                 None \<Rightarrow> []
               | Some a0 \<Rightarrow>
                   map (\<lambda>i. the (map_of (library lib0) i))
                     (filter (\<lambda>i. map_of (library lib0) i \<noteq> None) (album_tracks a0)))) \<and>
     r = Returns () \<and>
     sorted (map (track_number_of (library lib')) (album_tracks a)) \<and>
     (\<forall>n. filter (\<lambda>i. track_number_of (library lib') i = n) (album_tracks a)
          = map fst (filter (\<lambda>x. album_key_of e (snd x) = k \<and> track_number (snd x) = n)
                       (library lib))) \<and>
     sorted (map track_number (get_album_tracks k lib')) \<and>
     (\<forall>n. filter (\<lambda>t. track_number t = n) (get_album_tracks k lib')
          = map snd (filter (\<lambda>x. album_key_of e (snd x) = k \<and> track_number (snd x) = n)
                       (library lib)))"
proof -
  let ?L = "library lib"
  let ?tn = "track_number_of ?L"
  let ?lib1 = "fold (add_track e) ?L lib"
  let ?ids = "map fst (filter (\<lambda>x. album_key_of e (snd x) = k) ?L)"
  let ?g = "\<lambda>i. the (map_of ?L i)"
  have general_sorted: "sorted (map track_number (get_album_tracks k0 lib0))"
    by (cases "map_of (albums lib0) k0") (simp_all add: get_album_tracks_def)
  have general_stable: "filter (\<lambda>t. track_number t = n) (get_album_tracks k0 lib0)
          = filter (\<lambda>t. track_number t = n)
              (case map_of (albums lib0) k0 of
                 None \<Rightarrow> []
               | Some a0 \<Rightarrow>
                   map (\<lambda>i. the (map_of (library lib0) i))
                     (filter (\<lambda>i. map_of (library lib0) i \<noteq> None) (album_tracks a0)))" for n
    by (cases "map_of (albums lib0) k0")
       (simp_all add: get_album_tracks_def sort_key_stable stored_tracks_present)
  from organize_library_from_empty [OF assms(2,3)] assms(4)
  have r: "r = Returns ()"
    and lib': "lib' = ?lib1\<lparr>albums :=
                 map (\<lambda>(k, a). (k, a\<lparr>album_tracks := sort_key ?tn (album_tracks a)\<rparr>))
                   (albums ?lib1)\<rparr>"
    by simp_all
  from lib' have L': "library lib' = ?L" by simp
  from lib' assms(5) obtain a0 where a0: "map_of (albums ?lib1) k = Some a0"
    and a: "a = a0\<lparr>album_tracks := sort_key ?tn (album_tracks a0)\<rparr>"
    by (auto simp: map_of_map)
  from fold_add_track_album_tracks [of e ?L lib k] a0 assms(2)
  have "album_tracks a0 = ?ids" by simp
  with a have tracks: "album_tracks a = sort_key ?tn ?ids" by simp
  have sorted_ids: "sorted (map ?tn (album_tracks a))"
    by (simp only: tracks sorted_sort_key)
  have stable_ids: "filter (\<lambda>i. ?tn i = n) (album_tracks a)
          = map fst (filter (\<lambda>x. album_key_of e (snd x) = k \<and> track_number (snd x) = n) ?L)" for n
    by (simp only: tracks sort_key_stable filter_ids_by_number [OF assms(1)])
  have present: "\<forall>i \<in> set (album_tracks a). map_of ?L i \<noteq> None"
    by (auto simp: tracks map_of_eq_None_iff)
  from assms(5) have got: "get_album_tracks k lib' = sort_key track_number (map ?g (album_tracks a))"
    by (simp add: get_album_tracks_def L' map_filter_present [OF present])
  have sorted_tracks: "sorted (map track_number (get_album_tracks k lib'))"
    by (simp only: got sorted_sort_key)
  have number: "track_number (?g i) = ?tn i" if "i \<in> set (album_tracks a)" for i
    using that present by (auto simp: track_number_of_def)
  have stable_tracks: "filter (\<lambda>t. track_number t = n) (get_album_tracks k lib')
          = map snd (filter (\<lambda>x. album_key_of e (snd x) = k \<and> track_number (snd x) = n) ?L)" for n
  proof -
    have "filter (\<lambda>t. track_number t = n) (get_album_tracks k lib')
          = filter (\<lambda>t. track_number t = n) (map ?g (album_tracks a))"
      by (simp only: got sort_key_stable)
    also have "\<dots> = map ?g (filter (\<lambda>i. track_number (?g i) = n) (album_tracks a))"
      by (simp add: filter_map comp_def)
    also have "filter (\<lambda>i. track_number (?g i) = n) (album_tracks a)
               = filter (\<lambda>i. ?tn i = n) (album_tracks a)"
      by (rule filter_cong [OF refl]) (simp add: number)
    also have "\<dots> = map fst (filter (\<lambda>x. album_key_of e (snd x) = k \<and> track_number (snd x) = n) ?L)"
      by (rule stable_ids)
    also have "map ?g \<dots> = map snd (filter (\<lambda>x. album_key_of e (snd x) = k \<and> track_number (snd x) = n) ?L)"
      by (simp add: track_number_of_entry(1) [OF assms(1)])
    finally show ?thesis .
  qed
  from general_sorted general_stable r sorted_ids stable_ids sorted_tracks stable_tracks
  show ?thesis
    by (simp only: L') blast
qed

text \<open>The example tracks under \<open>latin1_lower\<close>, and the two ways \<open>unsorted_library\<close> is
  aggregated: to the end, and with an exception after its three tracks were added and
  before the id lists are sorted.\<close>

lemma latin1_lower_examples:
  "latin1_lower ''Artist - AlbumX'' = ''artist - albumx''"
  "latin1_lower ''Artist'' = ''artist''"
  "latin1_lower ''AlbumX'' = ''albumx''"
  "latin1_lower ''Live'' = ''live''"
  "latin1_lower ''The AlbumX Band'' = ''the albumx band''"
  "latin1_lower ''AlbumX Deluxe'' = ''albumx deluxe''"
  "latin1_lower ''Other'' = ''other''"
  "latin1_lower ''01 - Song.flac'' = ''01 - song.flac''"
  "latin1_lower ''02 - Song2.flac'' = ''02 - song2.flac''"
  "latin1_lower (CHR 0xC0 # '' Paris'') = CHR 0xE0 # '' paris''"
  by code_simp+

lemma example_track_keys:
  assumes "str_lower e = latin1_lower"
  shows "album_key_of e (example_track f n) = ''artist - albumx''"
    and "str_lower e (artist (example_track f n)) = ''artist''"
  by (simp_all add: album_key_of_def example_track_def assms latin1_lower_examples)

lemma example_env_lower: "str_lower example_env = latin1_lower"
  by (simp add: example_env_def)

lemma organize_unsorted:
  "organize_library example_env unsorted_library =
     (Returns (),
      unsorted_library
        \<lparr>albums := [(''artist - albumx'',
                     \<lparr>album_name = ''AlbumX'', album_artist = ''Artist'',
                      album_tracks = [''12'', ''11'', ''13''], album_track_count = 3\<rparr>)],
         artists := [(''artist'',
                      \<lparr>artist_name = ''Artist'', artist_albums = [''artist - albumx''],
                       artist_tracks = [''11'', ''12'', ''13'']\<rparr>)]\<rparr>)"
proof -
  have none: "aggregation_error example_env = None"
    by (simp add: example_env_def)
  show ?thesis
    by (simp add: organize_library_def none unsorted_library_def add_track_def
          example_track_keys [OF example_env_lower] track_number_of_def Let_def)
       (simp add: example_track_def)
qed

lemma organize_unsorted_interrupted:
  "organize_library (example_env\<lparr>aggregation_error := Some 3\<rparr>) unsorted_library =
     (Raises UnexpectedError,
      unsorted_library
        \<lparr>albums := [(''artist - albumx'',
                     \<lparr>album_name = ''AlbumX'', album_artist = ''Artist'',
                      album_tracks = [''11'', ''12'', ''13''], album_track_count = 3\<rparr>)],
         artists := [(''artist'',
                      \<lparr>artist_name = ''Artist'', artist_albums = [''artist - albumx''],
                       artist_tracks = [''11'', ''12'', ''13'']\<rparr>)]\<rparr>)"
proof -
  have lw: "str_lower (example_env\<lparr>aggregation_error := Some 3\<rparr>) = latin1_lower"
    by (simp add: example_env_def)
  show ?thesis
    by (simp add: organize_library_def unsorted_library_def add_track_def
          example_track_keys [OF lw] example_track_keys [OF example_env_lower] Let_def)
       (simp add: example_track_def)
qed

theorem album_tracks_sorted_stable_witness:
  "distinct (map fst (library unsorted_library)) \<and> albums unsorted_library = [] \<and>
   aggregation_error example_env = None \<and>
   organize_library example_env unsorted_library
     = (Returns (), snd (organize_library example_env unsorted_library)) \<and>
   map_of (albums (snd (organize_library example_env unsorted_library))) ''artist - albumx''
     = Some \<lparr>album_name = ''AlbumX'', album_artist = ''Artist'',
             album_tracks = [''12'', ''11'', ''13''], album_track_count = 3\<rparr> \<and>
   sorted (map (track_number_of (library (snd (organize_library example_env unsorted_library))))
             [''12'', ''11'', ''13'']) \<and>
   sorted (map track_number
             (get_album_tracks ''artist - albumx''
                (snd (organize_library example_env unsorted_library)))) \<and>
   filter (\<lambda>t. track_number t = 2)
       (get_album_tracks ''artist - albumx'' (snd (organize_library example_env unsorted_library)))
     = map snd (filter (\<lambda>x. album_key_of example_env (snd x) = ''artist - albumx''
                             \<and> track_number (snd x) = 2)
                  (library unsorted_library)) \<and>
   map track_number
       (map (\<lambda>i. the (map_of (library unsorted_library) i)) [''11'', ''12'', ''13''])
     = [2, 1, 2] \<and>
   sorted (map track_number
             (get_album_tracks ''artist - albumx''
                (snd (organize_library (example_env\<lparr>aggregation_error := Some 3\<rparr>)
                        unsorted_library)))) \<and>
   map track_number
       (get_album_tracks ''artist - albumx''
          (snd (organize_library (example_env\<lparr>aggregation_error := Some 3\<rparr>)
                  unsorted_library)))
     = [1, 2, 2]"
proof -
  let ?lib' = "snd (organize_library example_env unsorted_library)"
  let ?a = "\<lparr>album_name = ''AlbumX'', album_artist = ''Artist'',
             album_tracks = [''12'', ''11'', ''13''], album_track_count = 3\<rparr>"
  have d: "distinct (map fst (library unsorted_library))"
    by (simp add: unsorted_library_def)
  have e: "albums unsorted_library = []"
    by (simp add: unsorted_library_def)
  have n: "aggregation_error example_env = None"
    by (simp add: example_env_def)
  have o: "organize_library example_env unsorted_library = (Returns (), ?lib')"
    by (simp add: organize_unsorted)
  have m: "map_of (albums ?lib') ''artist - albumx'' = Some ?a"
    by (simp add: organize_unsorted)
  have stored: "map track_number
       (map (\<lambda>i. the (map_of (library unsorted_library) i)) [''11'', ''12'', ''13''])
     = [2, 1, 2]"
    by (simp add: unsorted_library_def example_track_def)
  have resorted: "map track_number
       (get_album_tracks ''artist - albumx''
          (snd (organize_library (example_env\<lparr>aggregation_error := Some 3\<rparr>)
                  unsorted_library)))
     = [1, 2, 2]"
    by (simp add: organize_unsorted_interrupted get_album_tracks_def)
       (simp add: unsorted_library_def example_track_def List.map_filter_simps)
  from album_tracks_sorted_stable [OF d e n o m, of "''artist - albumx''"
      "snd (organize_library (example_env\<lparr>aggregation_error := Some 3\<rparr>) unsorted_library)"]
    d e n o m stored resorted
  show ?thesis
    by simp
qed

subsection \<open>Search\<close>

lemma str_in_refl: "str_in q q"
  by (cases q) simp_all

lemma index_library_False:
  assumes "index_library e force st = (Returns False, st')"
  shows "st' = st"
  using assms
  by (auto simp: index_library_def Let_def split: if_splits prod.splits outcome.splits)

text \<open>What \<^verbatim>\<open>search_album\<close> returns, in terms of the album dict it leaves behind.\<close>

lemma search_album_result:
  assumes "search_album e query st = (Returns rs, st')"
  shows "rs = sort_key (relevance e (str_lower e query))
                (map summary_of (filter (album_matches e (str_lower e query)) (albums (fst st'))))"
proof (cases "albums (fst st) = []")
  case False
  with assms show ?thesis
    by (auto simp: search_album_def Let_def)
next
  case True
  obtain r st1 where idx: "index_library e False st = (r, st1)"
    by (cases "index_library e False st") auto
  show ?thesis
  proof (cases r)
    case (Raises err)
    with assms True idx show ?thesis
      by (simp add: search_album_def Let_def)
  next
    case (Returns ok)
    show ?thesis
    proof (cases ok)
      case True
      with assms \<open>albums (fst st) = []\<close> idx Returns show ?thesis
        by (auto simp: search_album_def Let_def)
    next
      case False
      with idx Returns have "st1 = st" by (auto dest: index_library_False)
      with assms \<open>albums (fst st) = []\<close> idx Returns False show ?thesis
        by (auto simp: search_album_def Let_def)
    qed
  qed
qed

text \<open>
  Claim C6.  The results of \<^verbatim>\<open>search_album\<close> are in ascending rank; the results of one
  rank are the matching albums of that rank in the insertion order of the album dict;
  and on a result, rank 0 says that the lowered album name is the lowered query, rank 1
  that the lowered query is a proper part of the lowered name, rank 2 that it is no part
  of the name but of the album key or of the lowered artist.
\<close>

theorem search_album_ranked:
  assumes "search_album e query st = (Returns rs, st')"
  shows "sorted (map (relevance e (str_lower e query)) rs) \<and>
     (\<forall>n. filter (\<lambda>x. relevance e (str_lower e query) x = n) rs
          = filter (\<lambda>x. relevance e (str_lower e query) x = n)
              (map summary_of (filter (album_matches e (str_lower e query)) (albums (fst st'))))) \<and>
     (\<forall>x \<in> set rs.
        (relevance e (str_lower e query) x = 0 \<longleftrightarrow> str_lower e (name x) = str_lower e query) \<and>
        (relevance e (str_lower e query) x = 1 \<longleftrightarrow>
           str_lower e (name x) \<noteq> str_lower e query \<and> str_in (str_lower e query) (str_lower e (name x))) \<and>
        (relevance e (str_lower e query) x = 2 \<longleftrightarrow>
           \<not> str_in (str_lower e query) (str_lower e (name x)) \<and>
           (str_in (str_lower e query) (key x) \<or> str_in (str_lower e query) (str_lower e (summary_artist x)))))"
proof (intro conjI allI ballI)
  let ?q = "str_lower e query"
  let ?matching = "map summary_of (filter (album_matches e ?q) (albums (fst st')))"
  note rs = search_album_result [OF assms]
  show "sorted (map (relevance e ?q) rs)"
    by (simp only: rs sorted_sort_key)
  show "filter (\<lambda>x. relevance e ?q x = n) rs = filter (\<lambda>x. relevance e ?q x = n) ?matching" for n
    by (simp only: rs sort_key_stable)
  fix x assume "x \<in> set rs"
  then have "x \<in> set ?matching" by (simp add: rs)
  then have matches: "str_in ?q (key x) \<or> str_in ?q (str_lower e (name x))
                      \<or> str_in ?q (str_lower e (summary_artist x))"
    by (auto simp: album_matches_def summary_of_def)
  show "relevance e ?q x = 0 \<longleftrightarrow> str_lower e (name x) = ?q"
    by (simp add: relevance_def)
  show "relevance e ?q x = 1 \<longleftrightarrow> str_lower e (name x) \<noteq> ?q \<and> str_in ?q (str_lower e (name x))"
    by (simp add: relevance_def)
  show "relevance e ?q x = 2 \<longleftrightarrow>
          \<not> str_in ?q (str_lower e (name x)) \<and>
          (str_in ?q (key x) \<or> str_in ?q (str_lower e (summary_artist x)))"
    using matches str_in_refl [of ?q] by (auto simp: relevance_def)
qed

lemma search_library_matches:
  "filter (album_matches example_env ''albumx'') (albums search_library) = albums search_library"
  by (simp add: search_library_def album_matches_def example_env_lower latin1_lower_examples)

lemma search_library_ranks:
  "map (relevance example_env ''albumx'') (map summary_of (albums search_library)) = [2, 1, 0]"
  by (simp add: search_library_def relevance_def summary_of_def example_env_lower
        latin1_lower_examples)

lemma search_example:
  "search_album example_env ''AlbumX'' (search_library, fresh_disk) =
     (Returns search_results, (search_library, fresh_disk))"
proof -
  have nonempty: "albums search_library \<noteq> []"
    by (simp add: search_library_def)
  from search_library_ranks
  have "sort_key (relevance example_env ''albumx'') (map summary_of (albums search_library))
        = rev (map summary_of (albums search_library))"
    by (simp add: search_library_def)
  then show ?thesis
    by (simp add: search_album_def nonempty example_env_lower latin1_lower_examples
          search_library_matches Let_def)
       (simp add: search_library_def summary_of_def search_results_def)
qed

theorem search_album_ranked_witness:
  "search_album example_env ''AlbumX'' (search_library, fresh_disk)
     = (Returns search_results, (search_library, fresh_disk)) \<and>
   sorted (map (relevance example_env (str_lower example_env ''AlbumX'')) search_results) \<and>
   filter (\<lambda>x. relevance example_env (str_lower example_env ''AlbumX'') x = 1) search_results
     = filter (\<lambda>x. relevance example_env (str_lower example_env ''AlbumX'') x = 1)
         (map summary_of (filter (album_matches example_env (str_lower example_env ''AlbumX''))
            (albums (fst (search_library, fresh_disk))))) \<and>
   hd search_results \<in> set search_results \<and>
   str_lower example_env (name (hd search_results)) = str_lower example_env ''AlbumX'' \<and>
   relevance example_env (str_lower example_env ''AlbumX'') (hd search_results) = 0"
proof -
  have first: "hd search_results \<in> set search_results"
    by (simp add: search_results_def)
  have same: "str_lower example_env (name (hd search_results))
                = str_lower example_env ''AlbumX''"
    by (simp add: search_results_def)
  from search_album_ranked [OF search_example] first same search_example show ?thesis
    by blast
qed

text \<open>With the interpreter's case folding the album whose name is the query comes
  first, although it was inserted last.\<close>

lemma latin1_lower_paris:
  "latin1_lower (CHR 0xE0 # '' paris'') = CHR 0xE0 # '' paris''"
  "latin1_lower (''Live '' @ CHR 0xE0 # '' Paris'') = ''live '' @ CHR 0xE0 # '' paris''"
  "latin1_lower (CHR 0xC0 # '' Paris'') = CHR 0xE0 # '' paris''"
  "latin1_lower ''X'' = ''x''"
  by code_simp+

lemma search_non_ascii:
  "fst (search_album example_env (CHR 0xE0 # '' paris'') (paris_library, fresh_disk))
     = Returns
         [\<lparr>key = ''x - '' @ CHR 0xE0 # '' paris'', name = CHR 0xC0 # '' Paris'',
           summary_artist = ''X'', track_count = 0\<rparr>,
          \<lparr>key = ''x - live '' @ CHR 0xE0 # '' paris'',
           name = ''Live '' @ CHR 0xE0 # '' Paris'', summary_artist = ''X'',
           track_count = 0\<rparr>]"
  using latin1_lower_paris
  by (simp add: search_album_def paris_library_def album_matches_def relevance_def
        summary_of_def example_env_lower Let_def)

subsection \<open>Indexing\<close>

text \<open>The scan only fills the track dict.\<close>

lemma process_audio_file_keeps [simp]:
  "albums (process_audio_file e p lib) = albums lib"
  "artists (process_audio_file e p lib) = artists lib"
  "indexed_time (process_audio_file e p lib) = indexed_time lib"
  by (simp_all add: process_audio_file_def Let_def split: mutagen_file.splits option.splits)

lemma scan_dir_keeps [simp]:
  "albums (scan_dir e d lib) = albums lib"
  "artists (scan_dir e d lib) = artists lib"
  "indexed_time (scan_dir e d lib) = indexed_time lib"
proof -
  have "albums (fold (\<lambda>file lib. if wanted_file e file
                        then process_audio_file e (path_join (fst d) file) lib else lib) fs lib)
          = albums lib \<and>
        artists (fold (\<lambda>file lib. if wanted_file e file
                        then process_audio_file e (path_join (fst d) file) lib else lib) fs lib)
          = artists lib \<and>
        indexed_time (fold (\<lambda>file lib. if wanted_file e file
                        then process_audio_file e (path_join (fst d) file) lib else lib) fs lib)
          = indexed_time lib" for fs
    by (induction fs arbitrary: lib) simp_all
  then show "albums (scan_dir e d lib) = albums lib"
    "artists (scan_dir e d lib) = artists lib"
    "indexed_time (scan_dir e d lib) = indexed_time lib"
    by (simp_all add: scan_dir_def)
qed

lemma fold_scan_dir_keeps [simp]:
  "albums (fold (scan_dir e) ds lib) = albums lib"
  "artists (fold (scan_dir e) ds lib) = artists lib"
  "indexed_time (fold (scan_dir e) ds lib) = indexed_time lib"
  by (induction ds arbitrary: lib) simp_all

text \<open>The three ways through \<^verbatim>\<open>index_library\<close> once the share is mounted: the
  freshness gate, a scan whose aggregation raises, a scan that completes.\<close>

lemma index_library_fresh:
  assumes "mount_ok e" and "\<not> force"
    and "real_of_int (indexed_time lib) > clock_check e - 86400" and "albums lib \<noteq> []"
  shows "index_library e force (lib, d) = (Returns True, lib, d)"
  using assms by (simp add: index_library_def)

lemma index_library_raises:
  assumes "mount_ok e" and "aggregation_error e = Some n"
    and "force \<or> \<not> (real_of_int (indexed_time lib) > clock_check e - 86400 \<and> albums lib \<noteq> [])"
  shows "index_library e force (lib, d) =
           (Raises UnexpectedError,
            fold (add_track e)
              (take n (library (fold (scan_dir e) (os_walk e)
                                  (lib\<lparr>library := [], albums := [], artists := []\<rparr>))))
              (fold (scan_dir e) (os_walk e) (lib\<lparr>library := [], albums := [], artists := []\<rparr>)),
            d)"
  using assms by (auto simp: index_library_def organize_library_def Let_def)

lemma index_library_scans:
  assumes "mount_ok e" and "aggregation_error e = None"
    and "force \<or> \<not> (real_of_int (indexed_time lib) > clock_check e - 86400 \<and> albums lib \<noteq> [])"
  shows "index_library e force (lib, d) =
           (Returns True,
            (snd (organize_library e
                    (fold (scan_dir e) (os_walk e)
                       (lib\<lparr>library := [], albums := [], artists := []\<rparr>))))
              \<lparr>indexed_time := int_of_float (clock_done e)\<rparr>,
            save_cache
              ((snd (organize_library e
                      (fold (scan_dir e) (os_walk e)
                         (lib\<lparr>library := [], albums := [], artists := []\<rparr>))))
                 \<lparr>indexed_time := int_of_float (clock_done e)\<rparr>) d)"
proof -
  let ?scanned = "fold (scan_dir e) (os_walk e) (lib\<lparr>library := [], albums := [], artists := []\<rparr>)"
  have "albums ?scanned = []" by simp
  from organize_library_from_empty [OF this assms(2)]
  have "fst (organize_library e ?scanned) = Returns ()" by simp
  then obtain lib3 where "organize_library e ?scanned = (Returns (), lib3)"
    by (cases "organize_library e ?scanned") auto
  with assms show ?thesis
    by (auto simp: index_library_def Let_def)
qed

text \<open>Indexing the example trees, step by step.\<close>

lemma flac_suffix_examples:
  "endswith ''01 - song.flac'' ''.flac''" "endswith ''02 - song2.flac'' ''.flac''"
  by code_simp+

lemma wanted_examples:
  assumes "str_lower e = latin1_lower"
  shows "wanted_file e ''01 - Song.flac''" and "wanted_file e ''02 - Song2.flac''"
  by (simp_all add: wanted_file_def assms latin1_lower_examples flac_suffix_examples
        supported_extensions_def startswith_def)

lemma path_join_examples:
  "path_join ''/home/jay/music_server/Artist/AlbumX'' ''01 - Song.flac'' = song1"
  "path_join ''/home/jay/music_server/Artist/AlbumX'' ''02 - Song2.flac'' = song2"
  unfolding song1_def song2_def by code_simp+

lemma basename_examples:
  "basename song1 = ''01 - Song.flac''" "basename song2 = ''02 - Song2.flac''"
  by code_simp+

lemma parts_examples:
  "split_on os_sep (str_replace mount_point [] song1)
     = [[], ''Artist'', ''AlbumX'', ''01 - Song.flac'']"
  "split_on os_sep (str_replace mount_point [] song2)
     = [[], ''Artist'', ''AlbumX'', ''02 - Song2.flac'']"
  by code_simp+

lemma str_int_examples:
  "str_int (- 8384710479420736860) = ''-8384710479420736860''"
  "str_int (- 7887328263489356057) = ''-7887328263489356057''"
  by (simp_all add: str_int_def digits.simps digit_char_def)

lemma hash_examples:
  "hash_seed_1 song1 = - 8384710479420736860" "hash_seed_1 song2 = - 7887328263489356057"
  by (simp_all add: hash_seed_1_def song1_def song2_def)

lemma process_song1:
  assumes "mutagen e = (\<lambda>p. IsFLAC [] 180)" and "getsize e = (\<lambda>p. Some 1000)"
    and "py_hash e = hash_seed_1"
  shows "process_audio_file e song1 lib =
           lib\<lparr>library := AList.update ''-8384710479420736860''
                             (untagged song1 ''01 - Song.flac'') (library lib)\<rparr>"
  by (simp add: process_audio_file_def assms basename_examples startswith_def
        flac_tags_untagged path_fallback_def parts_examples track_id_def hash_examples
        str_int_examples untagged_def Let_def)

lemma process_song2:
  assumes "mutagen e = (\<lambda>p. IsFLAC [] 180)" and "getsize e = (\<lambda>p. Some 1000)"
    and "py_hash e = hash_seed_1"
  shows "process_audio_file e song2 lib =
           lib\<lparr>library := AList.update ''-7887328263489356057''
                             (untagged song2 ''02 - Song2.flac'') (library lib)\<rparr>"
  by (simp add: process_audio_file_def assms basename_examples startswith_def
        flac_tags_untagged path_fallback_def parts_examples track_id_def hash_examples
        str_int_examples untagged_def Let_def)

lemma untagged_keys:
  assumes "str_lower e = latin1_lower"
  shows "album_key_of e (untagged p f) = ''artist - albumx''"
    and "str_lower e (artist (untagged p f)) = ''artist''"
  by (simp_all add: album_key_of_def untagged_def assms latin1_lower_examples)

lemma scan_example:
  "fold (scan_dir example_env) (os_walk example_env)
     (lib\<lparr>library := [], albums := [], artists := []\<rparr>)
   = lib\<lparr>library := [(''-8384710479420736860'', untagged song1 ''01 - Song.flac''),
                      (''-7887328263489356057'', untagged song2 ''02 - Song2.flac'')],
         albums := [], artists := []\<rparr>"
proof -
  have e: "mutagen example_env = (\<lambda>p. IsFLAC [] 180)" "getsize example_env = (\<lambda>p. Some 1000)"
    "py_hash example_env = hash_seed_1"
    by (simp_all add: example_env_def)
  have walk: "os_walk example_env =
      [(''/home/jay/music_server'', []), (''/home/jay/music_server/Artist'', []),
       (''/home/jay/music_server/Artist/AlbumX'', [''01 - Song.flac'', ''02 - Song2.flac''])]"
    by (simp add: example_env_def)
  show ?thesis
    by (simp add: walk scan_dir_def wanted_examples [OF example_env_lower] path_join_examples
          process_song1 [OF e] process_song2 [OF e])
qed

lemma scan_rescan:
  "fold (scan_dir rescan_env) (os_walk rescan_env)
     (lib\<lparr>library := [], albums := [], artists := []\<rparr>)
   = lib\<lparr>library := [(''-8384710479420736860'', untagged song1 ''01 - Song.flac'')],
         albums := [], artists := []\<rparr>"
proof -
  have e: "mutagen rescan_env = (\<lambda>p. IsFLAC [] 180)" "getsize rescan_env = (\<lambda>p. Some 1000)"
    "py_hash rescan_env = hash_seed_1"
    by (simp_all add: rescan_env_def example_env_def)
  have walk: "os_walk rescan_env =
      [(''/home/jay/music_server'', []), (''/home/jay/music_server/Artist'', []),
       (''/home/jay/music_server/Artist/AlbumX'', [''01 - Song.flac''])]"
    by (simp add: rescan_env_def)
  have lw: "str_lower rescan_env = latin1_lower"
    by (simp add: rescan_env_def example_env_def)
  show ?thesis
    by (simp add: walk scan_dir_def wanted_examples [OF lw] path_join_examples
          process_song1 [OF e])
qed

lemma organize_example:
  assumes "aggregation_error e = None" and "str_lower e = latin1_lower"
  shows "organize_library e
     (lib\<lparr>library := [(''-8384710479420736860'', untagged song1 ''01 - Song.flac''),
                      (''-7887328263489356057'', untagged song2 ''02 - Song2.flac'')],
          albums := [], artists := []\<rparr>)
   = (Returns (),
      lib\<lparr>library := library example_library, albums := albums example_library,
          artists := artists example_library\<rparr>)"
  by (simp add: organize_library_def assms(1) add_track_def untagged_keys [OF assms(2)]
        track_number_of_def example_library_def Let_def)
     (simp add: untagged_def)

lemma organize_rescan:
  assumes "aggregation_error e = None" and "str_lower e = latin1_lower"
  shows "organize_library e
     (lib\<lparr>library := [(''-8384710479420736860'', untagged song1 ''01 - Song.flac'')],
          albums := [], artists := []\<rparr>)
   = (Returns (),
      lib\<lparr>library := library one_track_library, albums := albums one_track_library,
          artists := artists one_track_library\<rparr>)"
  by (simp add: organize_library_def assms(1) add_track_def untagged_keys [OF assms(2)]
        track_number_of_def one_track_library_def Let_def)
     (simp add: untagged_def)

lemma clock_examples:
  "int_of_float (clock_done example_env) = 1700000003"
  "int_of_float (clock_done rescan_env) = 1700086405"
  by (simp_all add: int_of_float_def example_env_def rescan_env_def)

lemma save_example: "save_cache example_library fresh_disk = example_disk"
  "save_cache one_track_library example_disk = example_disk"
  using cache_data_not_serializable [of example_library]
    cache_data_not_serializable [of one_track_library]
  by (simp_all add: save_cache_def cache_save_def fresh_disk_def example_disk_def
        example_library_def one_track_library_def)

text \<open>The first index of the example share builds \<open>example_library\<close> and leaves
  \<open>example_disk\<close>; a forced or late enough index of the share a day later builds
  \<open>one_track_library\<close>.\<close>

lemma example_env_fields:
  "mount_ok example_env" "aggregation_error example_env = None"
  "mount_ok rescan_env" "aggregation_error rescan_env = None"
  "clock_check example_env = 1700000000.25" "clock_check rescan_env = 1700086404.25"
  by (simp_all add: example_env_def rescan_env_def)

lemma rescan_env_lower: "str_lower rescan_env = latin1_lower"
  by (simp add: rescan_env_def example_env_def)

lemma index_example:
  "index_library example_env False (new_library, fresh_disk)
     = (Returns True, example_library, example_disk)"
proof -
  have empty: "albums new_library = []"
    by (simp add: new_library_def)
  have built: "new_library\<lparr>library := library example_library, albums := albums example_library,
                  artists := artists example_library, indexed_time := 1700000003\<rparr>
               = example_library"
    by (simp add: new_library_def example_library_def)
  show ?thesis
    by (subst index_library_scans)
       (simp_all only: example_env_fields empty scan_example
          organize_example [OF example_env_fields(2) example_env_lower] clock_examples
          snd_conv built save_example simp_thms)
qed

lemma index_rescan:
  assumes "force \<or> \<not> real_of_int (indexed_time lib) > 1700000004.25"
  shows "index_library rescan_env force (lib, example_disk)
     = (Returns True, one_track_library, example_disk)"
proof -
  have built: "lib\<lparr>library := library one_track_library, albums := albums one_track_library,
                  artists := artists one_track_library, indexed_time := 1700086405\<rparr>
               = one_track_library"
    by (simp add: one_track_library_def)
  from assms
  have scan: "force \<or> \<not> (real_of_int (indexed_time lib) > clock_check rescan_env - 86400
                          \<and> albums lib \<noteq> [])"
    by (auto simp: example_env_fields)
  show ?thesis
    by (subst index_library_scans [OF example_env_fields(3,4) scan])
       (simp only: scan_rescan organize_rescan [OF example_env_fields(4) rescan_env_lower]
          clock_examples snd_conv built save_example)
qed

text \<open>
  Claim C7, as the code has it.  When a call with \<^verbatim>\<open>force=False\<close> on a mounted share
  runs a scan (the library had no album, or its \<open>indexed_time\<close> was not within the last
  24 hours) that completes with at least one album, a second call with \<^verbatim>\<open>force=False\<close>
  whose clock reading is less than 86400 seconds after the \<open>indexed_time\<close> the first
  call stored returns True and leaves the library and the cache file as they are.
\<close>

theorem index_twice_within_a_day:
  assumes "mount_ok e1"
    and "\<not> (real_of_int (indexed_time (fst st)) > clock_check e1 - 86400 \<and> albums (fst st) \<noteq> [])"
    and "index_library e1 False st = (Returns True, st1)"
    and "albums (fst st1) \<noteq> []"
    and "mount_ok e2"
    and "real_of_int (int_of_float (clock_done e1)) > clock_check e2 - 86400"
  shows "index_library e2 False st1 = (Returns True, st1)"
proof -
  from assms(1,2,3) have "indexed_time (fst st1) = int_of_float (clock_done e1)"
    by (auto simp: index_library_def Let_def split: prod.splits outcome.splits)
  with assms(4,5,6) index_library_fresh [of e2 False "fst st1" "snd st1"] show ?thesis
    by simp
qed

theorem index_twice_within_a_day_witness:
  "mount_ok example_env \<and>
   \<not> (real_of_int (indexed_time (fst (new_library, fresh_disk))) > clock_check example_env - 86400
      \<and> albums (fst (new_library, fresh_disk)) \<noteq> []) \<and>
   index_library example_env False (new_library, fresh_disk)
     = (Returns True, (example_library, example_disk)) \<and>
   albums (fst (example_library, example_disk)) \<noteq> [] \<and>
   mount_ok (example_env\<lparr>clock_check := 1700086402.25\<rparr>) \<and>
   real_of_int (int_of_float (clock_done example_env)) > 1700086402.25 - 86400 \<and>
   index_library (example_env\<lparr>clock_check := 1700086402.25\<rparr>) False
      (example_library, example_disk)
     = (Returns True, (example_library, example_disk))"
proof -
  have a: "mount_ok example_env"
    by (rule example_env_fields)
  have b: "\<not> (real_of_int (indexed_time (fst (new_library, fresh_disk)))
               > clock_check example_env - 86400
             \<and> albums (fst (new_library, fresh_disk)) \<noteq> [])"
    by (simp add: new_library_def)
  have c: "index_library example_env False (new_library, fresh_disk)
             = (Returns True, (example_library, example_disk))"
    by (rule index_example)
  have d: "albums (fst (example_library, example_disk)) \<noteq> []"
    by (simp add: example_library_def)
  have e: "mount_ok (example_env\<lparr>clock_check := 1700086402.25\<rparr>)"
    by (simp add: example_env_fields)
  have f: "real_of_int (int_of_float (clock_done example_env))
             > clock_check (example_env\<lparr>clock_check := 1700086402.25\<rparr>) - 86400"
    by (simp add: clock_examples)
  from index_twice_within_a_day [OF a b c d e f] a b c d e f show ?thesis
    by simp
qed

text \<open>
  The claim as stated fails when the first call did not scan.  The library was indexed
  at 1700000003; a first call 86399 seconds later is still inside the window and
  returns the cached library; a second call two seconds after the first is outside
  the window, scans the share as it is now and builds another library.
\<close>

theorem index_twice_differs:
  "index_library (rescan_env\<lparr>clock_check := 1700086402.25\<rparr>) False
      (example_library, example_disk)
     = (Returns True, (example_library, example_disk)) \<and>
   index_library rescan_env False (example_library, example_disk)
     = (Returns True, (one_track_library, example_disk)) \<and>
   clock_check rescan_env - 1700086402.25 < 86400 \<and>
   library one_track_library \<noteq> library example_library \<and>
   indexed_time one_track_library \<noteq> indexed_time example_library"
proof (intro conjI)
  show "index_library (rescan_env\<lparr>clock_check := 1700086402.25\<rparr>) False
          (example_library, example_disk)
        = (Returns True, (example_library, example_disk))"
    by (rule index_library_fresh)
       (simp_all add: example_env_fields example_library_def)
  show "index_library rescan_env False (example_library, example_disk)
        = (Returns True, (one_track_library, example_disk))"
    by (rule index_rescan) (simp add: example_library_def)
  show "clock_check rescan_env - 1700086402.25 < 86400"
    by (simp add: example_env_fields)
  show "library one_track_library \<noteq> library example_library"
    by (simp add: one_track_library_def example_library_def)
  show "indexed_time one_track_library \<noteq> indexed_time example_library"
    by (simp add: one_track_library_def example_library_def)
qed

lemma fold_add_track_cong:
  assumes "albums l1 = albums l2" and "artists l1 = artists l2"
  shows "albums (fold (add_track e) xs l1) = albums (fold (add_track e) xs l2)"
    and "artists (fold (add_track e) xs l1) = artists (fold (add_track e) xs l2)"
proof -
  from assms
  have "albums (fold (add_track e) xs l1) = albums (fold (add_track e) xs l2) \<and>
        artists (fold (add_track e) xs l1) = artists (fold (add_track e) xs l2)"
    by (induction xs arbitrary: l1 l2) (simp_all add: add_track_def Let_def)
  then show "albums (fold (add_track e) xs l1) = albums (fold (add_track e) xs l2)"
    and "artists (fold (add_track e) xs l1) = artists (fold (add_track e) xs l2)"
    by simp_all
qed

text \<open>
  Claim C2, as the code has it.  When the share is mounted, the freshness gate does not
  apply and an unexpected exception is raised in \<^verbatim>\<open>_organize_library\<close>, the exception
  leaves \<^verbatim>\<open>index_library\<close>: no value is returned.  The cache file and \<open>indexed_time\<close>
  are as before the call; the track dict is the one the new scan built, and the album
  and the artist dicts hold what was aggregated, from empty dicts, out of the tracks
  handled before the exception.
\<close>

theorem aggregation_error_propagates:
  assumes "mount_ok e" and "aggregation_error e = Some n"
    and "force \<or> \<not> (real_of_int (indexed_time lib) > clock_check e - 86400 \<and> albums lib \<noteq> [])"
  shows "fst (index_library e force (lib, d)) = Raises UnexpectedError \<and>
         snd (snd (index_library e force (lib, d))) = d \<and>
         indexed_time (fst (snd (index_library e force (lib, d)))) = indexed_time lib \<and>
         library (fst (snd (index_library e force (lib, d))))
           = library (fold (scan_dir e) (os_walk e)
                        (lib\<lparr>library := [], albums := [], artists := []\<rparr>)) \<and>
         albums (fst (snd (index_library e force (lib, d))))
           = albums (fold (add_track e)
                       (take n (library (fold (scan_dir e) (os_walk e)
                                           (lib\<lparr>library := [], albums := [], artists := []\<rparr>))))
                       (lib\<lparr>library := [], albums := [], artists := []\<rparr>)) \<and>
         artists (fst (snd (index_library e force (lib, d))))
           = artists (fold (add_track e)
                        (take n (library (fold (scan_dir e) (os_walk e)
                                            (lib\<lparr>library := [], albums := [], artists := []\<rparr>))))
                        (lib\<lparr>library := [], albums := [], artists := []\<rparr>))"
proof -
  let ?empty = "lib\<lparr>library := [], albums := [], artists := []\<rparr>"
  let ?scanned = "fold (scan_dir e) (os_walk e) ?empty"
  have same: "albums (fold (add_track e) xs ?scanned) = albums (fold (add_track e) xs ?empty)"
    "artists (fold (add_track e) xs ?scanned) = artists (fold (add_track e) xs ?empty)" for xs
    by (rule fold_add_track_cong; simp)+
  from index_library_raises [OF assms, of d] same show ?thesis
    by simp
qed

lemma partial_aggregation:
  assumes "str_lower e = latin1_lower"
  shows "albums (fold (add_track e)
             (take 1 [(''-8384710479420736860'', untagged song1 ''01 - Song.flac''),
                      (''-7887328263489356057'', untagged song2 ''02 - Song2.flac'')])
             (lib\<lparr>library := [], albums := [], artists := []\<rparr>))
   = [(''artist - albumx'',
       \<lparr>album_name = ''AlbumX'', album_artist = ''Artist'',
        album_tracks = [''-8384710479420736860''], album_track_count = 1\<rparr>)]"
    and "artists (fold (add_track e)
             (take 1 [(''-8384710479420736860'', untagged song1 ''01 - Song.flac''),
                      (''-7887328263489356057'', untagged song2 ''02 - Song2.flac'')])
             (lib\<lparr>library := [], albums := [], artists := []\<rparr>))
   = [(''artist'',
       \<lparr>artist_name = ''Artist'', artist_albums = [''artist - albumx''],
        artist_tracks = [''-8384710479420736860'']\<rparr>)]"
  by (simp_all add: add_track_def untagged_keys [OF assms] Let_def)
     (simp_all add: untagged_def)

lemma failing_env_fields:
  "mount_ok failing_env" "aggregation_error failing_env = Some 1"
  by (simp_all add: failing_env_def example_env_def)

lemma failing_env_lower: "str_lower failing_env = latin1_lower"
  by (simp add: failing_env_def example_env_def)

lemma scan_failing:
  "fold (scan_dir failing_env) (os_walk failing_env)
      (lib\<lparr>library := [], albums := [], artists := []\<rparr>)
   = lib\<lparr>library := [(''-8384710479420736860'', untagged song1 ''01 - Song.flac''),
                      (''-7887328263489356057'', untagged song2 ''02 - Song2.flac'')],
         albums := [], artists := []\<rparr>"
proof -
  have e: "mutagen failing_env = (\<lambda>p. IsFLAC [] 180)"
    "getsize failing_env = (\<lambda>p. Some 1000)" "py_hash failing_env = hash_seed_1"
    by (simp_all add: failing_env_def example_env_def)
  have walk: "os_walk failing_env =
      [(''/home/jay/music_server'', []), (''/home/jay/music_server/Artist'', []),
       (''/home/jay/music_server/Artist/AlbumX'', [''01 - Song.flac'', ''02 - Song2.flac''])]"
    by (simp add: failing_env_def example_env_def)
  show ?thesis
    by (simp add: walk scan_dir_def wanted_examples [OF failing_env_lower] path_join_examples
          process_song1 [OF e] process_song2 [OF e])
qed

theorem aggregation_error_propagates_witness:
  "mount_ok failing_env \<and> aggregation_error failing_env = Some 1 \<and>
   fst (index_library failing_env True (example_library, example_disk))
     = Raises UnexpectedError \<and>
   snd (snd (index_library failing_env True (example_library, example_disk))) = example_disk \<and>
   indexed_time (fst (snd (index_library failing_env True (example_library, example_disk))))
     = indexed_time example_library \<and>
   artists (fst (snd (index_library failing_env True (example_library, example_disk))))
     = [(''artist'',
         \<lparr>artist_name = ''Artist'', artist_albums = [''artist - albumx''],
          artist_tracks = [''-8384710479420736860'']\<rparr>)]"
proof -
  have c: "True \<or> \<not> (real_of_int (indexed_time example_library)
                         > clock_check failing_env - 86400
                       \<and> albums example_library \<noteq> [])"
    by simp
  have "artists (fold (add_track failing_env)
          (take 1 (library (fold (scan_dir failing_env) (os_walk failing_env)
             (example_library\<lparr>library := [], albums := [], artists := []\<rparr>))))
          (example_library\<lparr>library := [], albums := [], artists := []\<rparr>))
        = [(''artist'',
            \<lparr>artist_name = ''Artist'', artist_albums = [''artist - albumx''],
             artist_tracks = [''-8384710479420736860'']\<rparr>)]"
    by (simp only: scan_failing)
       (simp add: partial_aggregation(2) [OF failing_env_lower, simplified])
  with aggregation_error_propagates [OF failing_env_fields c, of example_disk]
    failing_env_fields
  show ?thesis
    by simp
qed

text \<open>
  The claim as stated fails on a forced re-index of the example share whose aggregation
  raises after the first track: the call raises instead of returning False, and the
  object is left with one album of one track where the library before the call held
  that album with two tracks.
\<close>

theorem aggregation_error_not_rolled_back:
  "fst (index_library failing_env True (example_library, example_disk))
     = Raises UnexpectedError \<and>
   fst (index_library failing_env True (example_library, example_disk)) \<noteq> Returns False \<and>
   albums (fst (snd (index_library failing_env True (example_library, example_disk))))
     = [(''artist - albumx'',
         \<lparr>album_name = ''AlbumX'', album_artist = ''Artist'',
          album_tracks = [''-8384710479420736860''], album_track_count = 1\<rparr>)] \<and>
   fst (snd (index_library failing_env True (example_library, example_disk)))
     \<noteq> example_library"
proof -
  let ?r = "index_library failing_env True (example_library, example_disk)"
  have c: "True \<or> \<not> (real_of_int (indexed_time example_library)
                         > clock_check failing_env - 86400
                       \<and> albums example_library \<noteq> [])"
    by simp
  let ?empty = "example_library\<lparr>library := [], albums := [], artists := []\<rparr>"
  let ?scanned = "fold (scan_dir failing_env) (os_walk failing_env) ?empty"
  note p = index_library_raises [OF failing_env_fields c, of example_disk]
  from p have raised: "fst ?r = Raises UnexpectedError"
    by simp
  from p have "albums (fst (snd ?r))
      = albums (fold (add_track failing_env) (take 1 (library ?scanned)) ?scanned)"
    by simp
  also have "\<dots> = albums (fold (add_track failing_env) (take 1 (library ?scanned)) ?empty)"
    by (rule fold_add_track_cong; simp)
  also have "\<dots> = [(''artist - albumx'',
         \<lparr>album_name = ''AlbumX'', album_artist = ''Artist'',
          album_tracks = [''-8384710479420736860''], album_track_count = 1\<rparr>)]"
    by (simp only: scan_failing)
       (simp add: partial_aggregation(1) [OF failing_env_lower, simplified])
  finally have albums: "albums (fst (snd ?r))
     = [(''artist - albumx'',
         \<lparr>album_name = ''AlbumX'', album_artist = ''Artist'',
          album_tracks = [''-8384710479420736860''], album_track_count = 1\<rparr>)]" .
  have "albums (fst (snd ?r)) \<noteq> albums example_library"
    unfolding albums by (simp add: example_library_def)
  then have "fst (snd ?r) \<noteq> example_library" by auto
  with raised albums show ?thesis by simp
qed

end
